theory Spec2Isabelle
  imports Complex_Main "HOL-Library.Stream"
begin

section \<open>Python values and exceptions\<close>

text \<open>
  Byte strings and text strings are both lists of 8-bit characters.
\<close>

type_synonym bytes = string

text \<open>
  The values exchanged between the MCP server and the addon are the values that
  \<^verbatim>\<open>json.loads\<close> produces: None, booleans, integers, floats, strings, lists and
  dictionaries with string keys. A dictionary is an association list; \<^verbatim>\<open>d.get(k)\<close>
  looks up the first entry for \<open>k\<close>.
\<close>

datatype json =
    JNull
  | JBool bool
  | JInt int
  | JFloat real
  | JStr string
  | JArr "json list"
  | JObj "(string \<times> json) list"

text \<open>
  Only the exception classes that the handlers of the source tell apart are kept:
  \<^verbatim>\<open>socket.timeout\<close>, the \<^verbatim>\<open>ConnectionError\<close> family (with \<^verbatim>\<open>BrokenPipeError\<close> and
  \<^verbatim>\<open>ConnectionResetError\<close>), \<^verbatim>\<open>json.JSONDecodeError\<close>, and every other subclass of
  \<^verbatim>\<open>Exception\<close> (\<^verbatim>\<open>UnicodeDecodeError\<close>, \<^verbatim>\<open>AttributeError\<close>, \<^verbatim>\<open>TypeError\<close>, ...).
  An exception carries the text that \<^verbatim>\<open>str(e)\<close> returns.
\<close>

datatype exc_class = SocketTimeout | ConnectionErrorC | JSONDecodeErrorC | OtherException

datatype py_exc = PyExc (exc_class: exc_class) (exc_msg: string)

text \<open>Python truthiness of a value (\<^verbatim>\<open>if x\<close>, \<^verbatim>\<open>x or y\<close>).\<close>

fun truthy :: "json \<Rightarrow> bool" where
  "truthy JNull = False"
| "truthy (JBool b) = b"
| "truthy (JInt i) = (i \<noteq> 0)"
| "truthy (JFloat r) = (r \<noteq> 0)"
| "truthy (JStr s) = (s \<noteq> [])"
| "truthy (JArr xs) = (xs \<noteq> [])"
| "truthy (JObj d) = (d \<noteq> [])"

fun py_type_name :: "json \<Rightarrow> string" where
  "py_type_name JNull = ''NoneType''"
| "py_type_name (JBool b) = ''bool''"
| "py_type_name (JInt i) = ''int''"
| "py_type_name (JFloat r) = ''float''"
| "py_type_name (JStr s) = ''str''"
| "py_type_name (JArr xs) = ''list''"
| "py_type_name (JObj d) = ''dict''"

definition quoted :: "string \<Rightarrow> string" where
  "quoted s = CHR 0x27 # s @ [CHR 0x27]"

text \<open>
  \<^verbatim>\<open>x.get(key, default)\<close>: a dictionary answers; any other value has no attribute
  \<^verbatim>\<open>get\<close> and the call raises \<^verbatim>\<open>AttributeError\<close>.
\<close>

definition py_get :: "json \<Rightarrow> string \<Rightarrow> json \<Rightarrow> py_exc + json" where
  "py_get x key dflt =
     (case x of
        JObj d \<Rightarrow> Inr (case map_of d key of Some v \<Rightarrow> v | None \<Rightarrow> dflt)
      | _ \<Rightarrow> Inl (PyExc OtherException
                 (quoted (py_type_name x) @ '' object has no attribute '' @ quoted ''get'')))"

text \<open>
  The Python runtime functions that the repository calls but does not define are
  parameters: \<^verbatim>\<open>json.loads(data.decode('utf-8'))\<close>, \<^verbatim>\<open>json.dumps(v).encode('utf-8')\<close>,
  \<^verbatim>\<open>repr\<close> of numbers and containers, and \<^verbatim>\<open>int\<close> of a string.
  Decoding gives a value, or raises \<^verbatim>\<open>json.JSONDecodeError\<close> (the text is not a JSON
  document), or raises something else (\<^verbatim>\<open>UnicodeDecodeError\<close>: the bytes are not UTF-8).
\<close>

datatype decoded = Parsed json | NotJSON string | DecodeError string

fun loads_result :: "decoded \<Rightarrow> py_exc + json" where
  "loads_result (Parsed v) = Inr v"
| "loads_result (NotJSON m) = Inl (PyExc JSONDecodeErrorC m)"
| "loads_result (DecodeError m) = Inl (PyExc OtherException m)"

record runtime =
  decode_loads :: "bytes \<Rightarrow> decoded"
  dumps_encode :: "json \<Rightarrow> bytes"
  repr :: "json \<Rightarrow> string"
  int_of_str :: "string \<Rightarrow> py_exc + int"

text \<open>\<^verbatim>\<open>str(v)\<close>, as an f-string formats a value.\<close>

definition py_str :: "runtime \<Rightarrow> json \<Rightarrow> string" where
  "py_str rt v =
     (case v of
        JNull \<Rightarrow> ''None''
      | JBool b \<Rightarrow> (if b then ''True'' else ''False'')
      | JStr s \<Rightarrow> s
      | _ \<Rightarrow> repr rt v)"

definition parses :: "runtime \<Rightarrow> bytes \<Rightarrow> bool" where
  "parses rt data = (case decode_loads rt data of Parsed v \<Rightarrow> True | _ \<Rightarrow> False)"

section \<open>The MCP server's side: sockets and the outside world\<close>

text \<open>
  The server process is sequential, so its environment is a script of outcomes, one
  stream for each kind of call: what each connection attempt, each \<^verbatim>\<open>sendall\<close> and each
  \<^verbatim>\<open>recv\<close> does, the identifiers \<^verbatim>\<open>uuid.uuid4()\<close> returns and the readings of the clock.
  \<^verbatim>\<open>recv\<close> returns bytes (empty when the peer has closed) or raises. Every call the
  program makes is appended to \<open>io_log\<close>.
\<close>

datatype recv_outcome = RecvData bytes | RecvRaise py_exc

datatype effect =
    EConnect nat string int "py_exc option"
  | ESendall nat bytes "py_exc option"
  | ERecv nat recv_outcome
  | EClose nat

record world =
  connect_results :: "py_exc option stream"
  sendall_results :: "py_exc option stream"
  recv_results :: "recv_outcome stream"
  uuids :: "string stream"
  clock :: "real stream"
  environ :: "string \<Rightarrow> string option"
  path_exists :: "string \<Rightarrow> bool"
  next_sock :: nat
  io_log :: "effect list"

fun is_connect :: "effect \<Rightarrow> bool" where
  "is_connect (EConnect s h p r) = True"
| "is_connect e = False"

record BlenderConnection =
  host :: string
  port :: int
  sock :: "nat option"

text \<open>
  \<^verbatim>\<open>connect\<close>: with a socket already there nothing happens; otherwise a socket is made
  and connected, and any exception leaves \<open>sock\<close> at None and returns False.
\<close>

definition connect :: "BlenderConnection \<Rightarrow> world \<Rightarrow> bool \<times> BlenderConnection \<times> world" where
  "connect self w =
     (if sock self \<noteq> None then (True, self, w)
      else
        let s = next_sock w;
            r = shd (connect_results w);
            w1 = w\<lparr>connect_results := stl (connect_results w),
                   next_sock := Suc s,
                   io_log := io_log w @ [EConnect s (host self) (port self) r]\<rparr>
        in case r of
             None \<Rightarrow> (True, self\<lparr>sock := Some s\<rparr>, w1)
           | Some e \<Rightarrow> (False, self\<lparr>sock := None\<rparr>, w1))"

text \<open>
  \<^verbatim>\<open>disconnect\<close>: an exception of \<^verbatim>\<open>close\<close> is logged and swallowed, and \<open>sock\<close> is None
  afterwards in any case.
\<close>

definition disconnect :: "BlenderConnection \<Rightarrow> world \<Rightarrow> BlenderConnection \<times> world" where
  "disconnect self w =
     (case sock self of
        None \<Rightarrow> (self, w)
      | Some s \<Rightarrow> (self\<lparr>sock := None\<rparr>, w\<lparr>io_log := io_log w @ [EClose s]\<rparr>))"

subsection \<open>Receiving a response\<close>

text \<open>
  One pass through the body of the \<^verbatim>\<open>while True\<close> loop of \<^verbatim>\<open>_receive_response\<close>, given
  what \<^verbatim>\<open>recv\<close> did. The pass ends by returning the data, by \<^verbatim>\<open>continue\<close>, by \<^verbatim>\<open>break\<close>
  or by an exception; the list of chunks is the one the pass leaves behind.
\<close>

datatype iter = IReturn bytes | IContinue | IBreak | IRaise py_exc

definition recv_body :: "runtime \<Rightarrow> recv_outcome \<Rightarrow> bytes list \<Rightarrow> iter \<times> bytes list" where
  "recv_body rt r chunks =
     (case r of
        RecvRaise e \<Rightarrow> (IRaise e, chunks)
      | RecvData chunk \<Rightarrow>
          if chunk = [] then
            (if chunks = []
             then (IRaise (PyExc OtherException ''Connection closed before receiving data''), chunks)
             else (IBreak, chunks))
          else
            let chunks1 = chunks @ [chunk];
                data = concat chunks1
            in (case decode_loads rt data of
                  Parsed v \<Rightarrow> (IReturn data, chunks1)
                | NotJSON m \<Rightarrow> (IContinue, chunks1)
                | DecodeError m \<Rightarrow> (IRaise (PyExc OtherException m), chunks1)))"

text \<open>The handler \<^verbatim>\<open>except socket.timeout\<close> around the body.\<close>

definition on_timeout :: "iter \<times> bytes list \<Rightarrow> iter \<times> bytes list" where
  "on_timeout p =
     (case p of
        (IRaise e, chunks) \<Rightarrow>
          if exc_class e = SocketTimeout then (if chunks \<noteq> [] then (IBreak, chunks) else (IRaise e, chunks))
          else (IRaise e, chunks)
      | _ \<Rightarrow> p)"

text \<open>
  How the loop is left: by \<^verbatim>\<open>return data\<close>, by \<^verbatim>\<open>break\<close> (with the chunks so far) or by an
  exception.
\<close>

datatype loop_exit = Returned bytes | Broke "bytes list" | Raised py_exc

definition recv_step ::
  "runtime \<Rightarrow> nat \<Rightarrow> world \<Rightarrow> bytes list \<Rightarrow> (world \<times> bytes list) + (loop_exit \<times> world)" where
  "recv_step rt s w chunks =
     (let r = shd (recv_results w);
          w1 = w\<lparr>recv_results := stl (recv_results w), io_log := io_log w @ [ERecv s r]\<rparr>
      in case on_timeout (recv_body rt r chunks) of
           (IReturn data, cs) \<Rightarrow> Inr (Returned data, w1)
         | (IContinue, cs) \<Rightarrow> Inl (w1, cs)
         | (IBreak, cs) \<Rightarrow> Inr (Broke cs, w1)
         | (IRaise e, cs) \<Rightarrow> Inr (Raised e, w1))"

text \<open>
  The loop itself. A peer that keeps sending bytes that never parse keeps the loop
  running for ever; not returning is the value None.
\<close>

partial_function (option) receive_loop ::
  "runtime \<Rightarrow> nat \<Rightarrow> world \<Rightarrow> bytes list \<Rightarrow> (loop_exit \<times> world) option" where
  "receive_loop rt s w chunks =
     (case recv_step rt s w chunks of
        Inl (w1, chunks1) \<Rightarrow> receive_loop rt s w1 chunks1
      | Inr res \<Rightarrow> Some res)"

text \<open>
  \<^verbatim>\<open>_receive_response\<close>: after \<^verbatim>\<open>break\<close> the joined chunks are returned when there are
  any, and \<^verbatim>\<open>Exception("No data received")\<close> is raised otherwise. Without a socket the
  first statement, \<^verbatim>\<open>self.sock.settimeout\<close>, raises \<^verbatim>\<open>AttributeError\<close>.
\<close>

definition after_loop :: "loop_exit \<Rightarrow> py_exc + bytes" where
  "after_loop ex =
     (case ex of
        Returned data \<Rightarrow> Inr data
      | Raised e \<Rightarrow> Inl e
      | Broke chunks \<Rightarrow>
          if chunks \<noteq> [] then Inr (concat chunks)
          else Inl (PyExc OtherException ''No data received''))"

definition receive_response ::
  "runtime \<Rightarrow> BlenderConnection \<Rightarrow> world \<Rightarrow> ((py_exc + bytes) \<times> world) option" where
  "receive_response rt self w =
     (case sock self of
        None \<Rightarrow> Some (Inl (PyExc OtherException
                   (quoted ''NoneType'' @ '' object has no attribute '' @ quoted ''settimeout'')), w)
      | Some s \<Rightarrow>
          (case receive_loop rt s w [] of
             None \<Rightarrow> None
           | Some (ex, w1) \<Rightarrow> Some (after_loop ex, w1)))"

subsection \<open>Sending a command\<close>

text \<open>
  The dictionary that \<^verbatim>\<open>send_command\<close> serialises. The command name goes under the key
  \<^verbatim>\<open>type\<close>; \<^verbatim>\<open>params or {}\<close> replaces a falsy argument by the empty dictionary.
\<close>

definition build_command :: "string \<Rightarrow> json \<Rightarrow> string \<Rightarrow> real \<Rightarrow> json" where
  "build_command command_type params uid ts =
     JObj [(''type'', JStr command_type),
           (''params'', if truthy params then params else JObj []),
           (''id'', JStr uid),
           (''timestamp'', JFloat ts)]"

text \<open>
  What \<^verbatim>\<open>send_command\<close> does with the decoded response: an error status raises an
  exception with the response's message, anything else returns the \<^verbatim>\<open>result\<close> entry.
\<close>

definition check_response :: "runtime \<Rightarrow> json \<Rightarrow> py_exc + json" where
  "check_response rt response =
     (case py_get response ''status'' JNull of
        Inl e \<Rightarrow> Inl e
      | Inr st \<Rightarrow>
          if st = JStr ''error'' then
            (case py_get response ''message'' (JStr ''Unknown error from Blender'') of
               Inl e \<Rightarrow> Inl e
             | Inr m \<Rightarrow> Inl (PyExc OtherException (py_str rt m)))
          else py_get response ''result'' (JObj []))"

text \<open>The body of the \<^verbatim>\<open>try\<close> block of \<^verbatim>\<open>send_command\<close>.\<close>

definition exchange ::
  "runtime \<Rightarrow> BlenderConnection \<Rightarrow> json \<Rightarrow> world \<Rightarrow> ((py_exc + json) \<times> world) option" where
  "exchange rt self command w =
     (case sock self of
        None \<Rightarrow> Some (Inl (PyExc OtherException
                   (quoted ''NoneType'' @ '' object has no attribute '' @ quoted ''sendall'')), w)
      | Some s \<Rightarrow>
          let message = dumps_encode rt command;
              r = shd (sendall_results w);
              w1 = w\<lparr>sendall_results := stl (sendall_results w),
                     io_log := io_log w @ [ESendall s message r]\<rparr>
          in (case r of
                Some e \<Rightarrow> Some (Inl e, w1)
              | None \<Rightarrow>
                  (case receive_response rt self w1 of
                     None \<Rightarrow> None
                   | Some (Inl e, w2) \<Rightarrow> Some (Inl e, w2)
                   | Some (Inr response_data, w2) \<Rightarrow>
                       (case loads_result (decode_loads rt response_data) of
                          Inl e \<Rightarrow> Some (Inl e, w2)
                        | Inr response \<Rightarrow> Some (check_response rt response, w2)))))"

text \<open>The three \<^verbatim>\<open>except\<close> clauses: each raises a plain \<^verbatim>\<open>Exception\<close> with a new text.\<close>

definition translate_error :: "py_exc \<Rightarrow> py_exc" where
  "translate_error e =
     (if exc_class e = SocketTimeout
        then PyExc OtherException ''Timeout waiting for Blender response''
      else if exc_class e = ConnectionErrorC
        then PyExc OtherException (''Connection to Blender lost: '' @ exc_msg e)
      else PyExc OtherException (''Communication error with Blender: '' @ exc_msg e))"

definition send_command ::
  "runtime \<Rightarrow> BlenderConnection \<Rightarrow> string \<Rightarrow> json \<Rightarrow> world
     \<Rightarrow> ((py_exc + json) \<times> BlenderConnection \<times> world) option" where
  "send_command rt self command_type params w =
     (case (if sock self = None then connect self w else (True, self, w)) of
        (ok, self1, w1) \<Rightarrow>
          if \<not> ok then Some (Inl (PyExc ConnectionErrorC ''Not connected to Blender''), self1, w1)
          else
            let command = build_command command_type params (shd (uuids w1)) (shd (clock w1));
                w2 = w1\<lparr>uuids := stl (uuids w1), clock := stl (clock w1)\<rparr>
            in (case exchange rt self1 command w2 of
                  None \<Rightarrow> None
                | Some (Inr result, w3) \<Rightarrow> Some (Inr result, self1, w3)
                | Some (Inl e, w3) \<Rightarrow> Some (Inl (translate_error e), self1\<lparr>sock := None\<rparr>, w3)))"

subsection \<open>The persistent connection\<close>

text \<open>
  Connection objects live in a store, so that the global \<^verbatim>\<open>_blender_connection\<close> and the
  reference a caller holds name the same object. \<open>next_ref\<close> is the address the next
  constructed object gets.
\<close>

record server =
  heap :: "nat \<Rightarrow> BlenderConnection"
  next_ref :: nat
  blender_connection :: "nat option"

text \<open>
  The block under \<^verbatim>\<open>if _blender_connection is None\<close>, followed by
  \<^verbatim>\<open>return _blender_connection\<close>. \<^verbatim>\<open>int\<close> may raise on the value of \<^verbatim>\<open>BLENDER_PORT\<close>; the
  global is assigned before \<^verbatim>\<open>connect\<close> is tried.
\<close>

definition create_if_missing :: "runtime \<Rightarrow> server \<Rightarrow> world \<Rightarrow> (py_exc + nat) \<times> server \<times> world" where
  "create_if_missing rt st w =
     (case blender_connection st of
        Some r \<Rightarrow> (Inr r, st, w)
      | None \<Rightarrow>
          let h = (case environ w ''BLENDER_HOST'' of Some v \<Rightarrow> v | None \<Rightarrow> ''localhost'');
              p = (case environ w ''BLENDER_PORT'' of Some v \<Rightarrow> int_of_str rt v | None \<Rightarrow> Inr 9876)
          in (case p of
                Inl e \<Rightarrow> (Inl e, st, w)
              | Inr pn \<Rightarrow>
                  (case connect \<lparr>host = h, port = pn, sock = None\<rparr> w of
                     (ok, c, w1) \<Rightarrow>
                       let r = next_ref st;
                           st1 = st\<lparr>heap := (heap st)(r := c), next_ref := Suc r,
                                    blender_connection := Some r\<rparr>
                       in if \<not> ok
                          then (Inl (PyExc OtherException
                                  ''Could not connect to Blender. Make sure the Blender addon is running.''),
                                st1, w1)
                          else (Inr r, st1, w1))))"

definition get_blender_connection ::
  "runtime \<Rightarrow> server \<Rightarrow> world \<Rightarrow> ((py_exc + nat) \<times> server \<times> world) option" where
  "get_blender_connection rt st w =
     (case blender_connection st of
        None \<Rightarrow> Some (create_if_missing rt st w)
      | Some r \<Rightarrow>
          (case send_command rt (heap st r) ''ping'' JNull w of
             None \<Rightarrow> None
           | Some (Inr res, c, w1) \<Rightarrow> Some (Inr r, st\<lparr>heap := (heap st)(r := c)\<rparr>, w1)
           | Some (Inl e, c, w1) \<Rightarrow>
               (case disconnect c w1 of
                  (c1, w2) \<Rightarrow>
                    Some (create_if_missing rt
                            (st\<lparr>heap := (heap st)(r := c1), blender_connection := None\<rparr>) w2))))"

subsection \<open>The tools that ask for confirmation\<close>

text \<open>
  \<^verbatim>\<open>blender = get_blender_connection(); result = blender.send_command(cmd, params)\<close>.
\<close>

definition call_blender ::
  "runtime \<Rightarrow> string \<Rightarrow> json \<Rightarrow> server \<Rightarrow> world \<Rightarrow> ((py_exc + json) \<times> server \<times> world) option" where
  "call_blender rt cmd params st w =
     (case get_blender_connection rt st w of
        None \<Rightarrow> None
      | Some (Inl e, st1, w1) \<Rightarrow> Some (Inl e, st1, w1)
      | Some (Inr r, st1, w1) \<Rightarrow>
          (case send_command rt (heap st1 r) cmd params w1 of
             None \<Rightarrow> None
           | Some (res, c, w2) \<Rightarrow> Some (res, st1\<lparr>heap := (heap st1)(r := c)\<rparr>, w2)))"

text \<open>
  The \<^verbatim>\<open>if result.get("success")\<close> statement that ends every tool, and the tool's
  \<^verbatim>\<open>except Exception\<close> clause, which turns an exception into the failure text.
\<close>

definition report :: "runtime \<Rightarrow> json \<Rightarrow> (json \<Rightarrow> string) \<Rightarrow> string \<Rightarrow> py_exc + string" where
  "report rt result ok_text fail_prefix =
     (case py_get result ''success'' JNull of
        Inl e \<Rightarrow> Inl e
      | Inr s \<Rightarrow>
          if truthy s then Inr (ok_text result)
          else (case py_get result ''message'' (JStr ''Unknown error'') of
                  Inl e \<Rightarrow> Inl e
                | Inr m \<Rightarrow> Inr (fail_prefix @ py_str rt m)))"

definition run_tool ::
  "runtime \<Rightarrow> string \<Rightarrow> json \<Rightarrow> (json \<Rightarrow> string) \<Rightarrow> string \<Rightarrow> server \<Rightarrow> world
     \<Rightarrow> (string \<times> server \<times> world) option" where
  "run_tool rt cmd params ok_text fail_prefix st w =
     (case call_blender rt cmd params st w of
        None \<Rightarrow> None
      | Some (Inl e, st1, w1) \<Rightarrow> Some (fail_prefix @ exc_msg e, st1, w1)
      | Some (Inr result, st1, w1) \<Rightarrow>
          Some (case report rt result ok_text fail_prefix of
                  Inl e \<Rightarrow> fail_prefix @ exc_msg e
                | Inr text \<Rightarrow> text, st1, w1))"

definition delete_scene ::
  "runtime \<Rightarrow> string \<Rightarrow> bool \<Rightarrow> server \<Rightarrow> world \<Rightarrow> (string \<times> server \<times> world) option" where
  "delete_scene rt scene_name confirm st w =
     (if \<not> confirm then Some (''Scene deletion requires confirmation=True parameter'', st, w)
      else run_tool rt ''delete_scene'' (JObj [(''scene_name'', JStr scene_name)])
             (\<lambda>result. ''Scene '' @ quoted scene_name @ '' deleted successfully'')
             ''Failed to delete scene: '' st w)"

definition clear_scene ::
  "runtime \<Rightarrow> bool \<Rightarrow> server \<Rightarrow> world \<Rightarrow> (string \<times> server \<times> world) option" where
  "clear_scene rt confirm st w =
     (if \<not> confirm then Some (''Scene clearing requires confirmation=True parameter'', st, w)
      else run_tool rt ''clear_scene'' JNull
             (\<lambda>result. ''Scene cleared successfully. ''
                @ py_str rt (case py_get result ''deleted_count'' (JInt 0) of Inr n \<Rightarrow> n | Inl e \<Rightarrow> JInt 0)
                @ '' objects removed'')
             ''Failed to clear scene: '' st w)"

definition delete_object ::
  "runtime \<Rightarrow> string \<Rightarrow> bool \<Rightarrow> server \<Rightarrow> world \<Rightarrow> (string \<times> server \<times> world) option" where
  "delete_object rt object_name confirm st w =
     (if \<not> confirm then Some (''Object deletion requires confirmation=True parameter'', st, w)
      else run_tool rt ''delete_object'' (JObj [(''object_name'', JStr object_name)])
             (\<lambda>result. ''Object '' @ quoted object_name @ '' deleted successfully'')
             ''Failed to delete object: '' st w)"

definition delete_material ::
  "runtime \<Rightarrow> string \<Rightarrow> bool \<Rightarrow> server \<Rightarrow> world \<Rightarrow> (string \<times> server \<times> world) option" where
  "delete_material rt material_name confirm st w =
     (if \<not> confirm then Some (''Material deletion requires confirmation=True parameter'', st, w)
      else run_tool rt ''delete_material'' (JObj [(''material_name'', JStr material_name)])
             (\<lambda>result. ''Material '' @ quoted material_name @ '' deleted successfully'')
             ''Failed to delete material: '' st w)"

definition remove_modifier ::
  "runtime \<Rightarrow> string \<Rightarrow> string \<Rightarrow> bool \<Rightarrow> server \<Rightarrow> world \<Rightarrow> (string \<times> server \<times> world) option" where
  "remove_modifier rt object_name modifier_name confirm st w =
     (if \<not> confirm then Some (''Modifier removal requires confirmation=True parameter'', st, w)
      else run_tool rt ''remove_modifier''
             (JObj [(''object_name'', JStr object_name), (''modifier_name'', JStr modifier_name)])
             (\<lambda>result. ''Modifier '' @ quoted modifier_name @ '' removed from '' @ quoted object_name)
             ''Failed to remove modifier: '' st w)"

definition clear_animation ::
  "runtime \<Rightarrow> string \<Rightarrow> bool \<Rightarrow> server \<Rightarrow> world \<Rightarrow> (string \<times> server \<times> world) option" where
  "clear_animation rt object_name confirm st w =
     (if \<not> confirm then Some (''Animation clearing requires confirmation=True parameter'', st, w)
      else run_tool rt ''clear_animation'' (JObj [(''object_name'', JStr object_name)])
             (\<lambda>result. ''Animation cleared from '' @ quoted object_name)
             ''Failed to clear animation: '' st w)"

definition load_scene ::
  "runtime \<Rightarrow> string \<Rightarrow> bool \<Rightarrow> server \<Rightarrow> world \<Rightarrow> (string \<times> server \<times> world) option" where
  "load_scene rt file_path confirm st w =
     (if \<not> confirm then Some (''Scene loading requires confirmation=True parameter'', st, w)
      else if \<not> path_exists w file_path then Some (''File not found: '' @ file_path, st, w)
      else run_tool rt ''load_scene'' (JObj [(''file_path'', JStr file_path)])
             (\<lambda>result. ''Scene loaded successfully from '' @ file_path)
             ''Failed to load scene: '' st w)"

section \<open>The addon's side\<close>

text \<open>
  The calls into Blender's scripting interface that \<^verbatim>\<open>execute_command\<close> makes. The
  interface itself is a parameter: a function that, for a call and a state of Blender,
  gives the value returned or the exception raised, and the state afterwards.
  \<open>ObjectsContains n\<close> is \<^verbatim>\<open>n in bpy.data.objects\<close>, \<open>ObjectsRemove n\<close> is
  \<^verbatim>\<open>bpy.data.objects.remove(bpy.data.objects[n])\<close>, \<open>SetLocation n l\<close> is
  \<^verbatim>\<open>bpy.data.objects[n].location = l\<close>, \<open>Render\<close> is
  \<^verbatim>\<open>bpy.ops.render.render(write_still=True)\<close> and \<open>Eval c\<close> is \<^verbatim>\<open>eval(c)\<close>.
\<close>

datatype host_call =
    CubeAdd json
  | SphereAdd json
  | CylinderAdd json
  | ObjectsContains json
  | ObjectsRemove json
  | SetLocation json json
  | Render
  | SaveAsMainfile json
  | Eval json

type_synonym 'b host = "host_call \<Rightarrow> 'b \<Rightarrow> (py_exc + json) \<times> 'b"

text \<open>A call is made on the current state and recorded in the list of calls made.\<close>

definition call_host ::
  "'b host \<Rightarrow> host_call \<Rightarrow> 'b \<times> host_call list \<Rightarrow> (py_exc + json) \<times> 'b \<times> host_call list" where
  "call_host h c s = (case h c (fst s) of (r, b) \<Rightarrow> (r, b, snd s @ [c]))"

text \<open>Sequencing of statements: an exception skips the rest.\<close>

definition then_do ::
  "(py_exc + 'a) \<times> 's \<Rightarrow> ('a \<Rightarrow> 's \<Rightarrow> (py_exc + 'c) \<times> 's) \<Rightarrow> (py_exc + 'c) \<times> 's" where
  "then_do m f = (case m of (Inl e, s) \<Rightarrow> (Inl e, s) | (Inr v, s) \<Rightarrow> f v s)"

definition success_message :: "string \<Rightarrow> json" where
  "success_message m = JObj [(''success'', JBool True), (''message'', JStr m)]"

definition failure :: "string \<Rightarrow> json" where
  "failure m = JObj [(''success'', JBool False), (''error'', JStr m)]"

text \<open>\<^verbatim>\<open>f(**params)\<close> needs a mapping; anything else raises \<^verbatim>\<open>TypeError\<close> before the call.\<close>

definition kwargs :: "json \<Rightarrow> py_exc + json" where
  "kwargs params =
     (case params of
        JObj d \<Rightarrow> Inr params
      | _ \<Rightarrow> Inl (PyExc OtherException
                 (''argument after ** must be a mapping, not '' @ py_type_name params)))"

text \<open>
  \<^verbatim>\<open>if obj_name and obj_name in bpy.data.objects\<close>: the membership test is made only for
  a truthy name.
\<close>

definition object_present ::
  "'b host \<Rightarrow> json \<Rightarrow> 'b \<times> host_call list \<Rightarrow> (py_exc + bool) \<times> 'b \<times> host_call list" where
  "object_present h obj_name s =
     (if truthy obj_name
      then then_do (call_host h (ObjectsContains obj_name) s) (\<lambda>found s1. (Inr (truthy found), s1))
      else (Inr False, s))"

text \<open>The body of the \<^verbatim>\<open>try\<close> block of \<^verbatim>\<open>execute_command\<close>, branch by branch.\<close>

definition execute_body ::
  "runtime \<Rightarrow> 'b host \<Rightarrow> json \<Rightarrow> 'b \<times> host_call list \<Rightarrow> (py_exc + json) \<times> 'b \<times> host_call list" where
  "execute_body rt h command s0 =
     then_do (py_get command ''action'' JNull, s0) (\<lambda>action s.
     then_do (py_get command ''params'' (JObj []), s) (\<lambda>params s.
       if action = JStr ''add_cube'' then
         then_do (kwargs params, s) (\<lambda>kw s.
         then_do (call_host h (CubeAdd kw) s) (\<lambda>r s.
           (Inr (success_message ''Cube added''), s)))
       else if action = JStr ''add_sphere'' then
         then_do (kwargs params, s) (\<lambda>kw s.
         then_do (call_host h (SphereAdd kw) s) (\<lambda>r s.
           (Inr (success_message ''Sphere added''), s)))
       else if action = JStr ''add_cylinder'' then
         then_do (kwargs params, s) (\<lambda>kw s.
         then_do (call_host h (CylinderAdd kw) s) (\<lambda>r s.
           (Inr (success_message ''Cylinder added''), s)))
       else if action = JStr ''delete_object'' then
         then_do (py_get params ''name'' JNull, s) (\<lambda>obj_name s.
         then_do (object_present h obj_name s) (\<lambda>present s.
           if present then
             then_do (call_host h (ObjectsRemove obj_name) s) (\<lambda>r s.
               (Inr (success_message (''Object '' @ quoted (py_str rt obj_name) @ '' deleted'')), s))
           else (Inr (failure ''Object not found''), s)))
       else if action = JStr ''move_object'' then
         then_do (py_get params ''name'' JNull, s) (\<lambda>obj_name s.
         then_do (py_get params ''location'' (JArr [JInt 0, JInt 0, JInt 0]), s) (\<lambda>location s.
         then_do (object_present h obj_name s) (\<lambda>present s.
           if present then
             then_do (call_host h (SetLocation obj_name location) s) (\<lambda>r s.
               (Inr (success_message (''Object '' @ quoted (py_str rt obj_name) @ '' moved'')), s))
           else (Inr (failure ''Object not found''), s))))
       else if action = JStr ''render'' then
         then_do (call_host h Render s) (\<lambda>r s.
           (Inr (success_message ''Render complete''), s))
       else if action = JStr ''save_file'' then
         then_do (py_get params ''filepath'' JNull, s) (\<lambda>filepath s.
         then_do (call_host h (SaveAsMainfile filepath) s) (\<lambda>r s.
           (Inr (success_message (''File saved to '' @ py_str rt filepath)), s)))
       else if action = JStr ''eval'' then
         then_do (py_get params ''code'' JNull, s) (\<lambda>code s.
         then_do (call_host h (Eval code) s) (\<lambda>result s.
           (Inr (JObj [(''success'', JBool True), (''result'', JStr (py_str rt result))]), s)))
       else (Inr (failure (''Unknown action: '' @ py_str rt action)), s)))"

text \<open>
  \<^verbatim>\<open>execute_command\<close>: the \<^verbatim>\<open>except Exception\<close> clause turns every exception of the body
  into a failure dictionary. The result is the dictionary returned, Blender's state
  afterwards and the calls made.
\<close>

definition execute_command ::
  "runtime \<Rightarrow> 'b host \<Rightarrow> json \<Rightarrow> 'b \<Rightarrow> json \<times> 'b \<times> host_call list" where
  "execute_command rt h command b =
     (case execute_body rt h command (b, []) of
        (Inr d, s) \<Rightarrow> (d, s)
      | (Inl e, s) \<Rightarrow> (failure (exc_msg e), s))"

subsection \<open>Serving one client\<close>

text \<open>
  What one client thread sees: the value of the flag \<^verbatim>\<open>server_running\<close> at each test of
  the loop (other threads may change it), what each \<^verbatim>\<open>recv\<close> and each \<^verbatim>\<open>sendall\<close> on the
  client socket does, every \<^verbatim>\<open>sendall\<close> attempted with its outcome, whether the socket
  has been closed, and Blender's state with the calls made on it.
\<close>

record 'b client =
  running :: "bool stream"
  client_recv :: "recv_outcome stream"
  client_send :: "py_exc option stream"
  sent :: "(bytes \<times> py_exc option) list"
  closed :: bool
  blender :: 'b
  host_calls :: "host_call list"

definition client_sendall :: "bytes \<Rightarrow> 'b client \<Rightarrow> py_exc option \<times> 'b client" where
  "client_sendall data a =
     (let r = shd (client_send a)
      in (r, a\<lparr>client_send := stl (client_send a), sent := sent a @ [(data, r)]\<rparr>))"

text \<open>
  The inner \<^verbatim>\<open>try\<close> statement of \<^verbatim>\<open>handle_client\<close> for the bytes received. The body
  decodes, prints \<^verbatim>\<open>command.get('action')\<close>, executes and answers; the only handler is
  for \<^verbatim>\<open>json.JSONDecodeError\<close>. The result is the exception that leaves the statement,
  if any.
\<close>

definition answer_body :: "runtime \<Rightarrow> 'b host \<Rightarrow> bytes \<Rightarrow> 'b client \<Rightarrow> py_exc option \<times> 'b client" where
  "answer_body rt h data a =
     (case loads_result (decode_loads rt data) of
        Inl e \<Rightarrow> (Some e, a)
      | Inr command \<Rightarrow>
          (case py_get command ''action'' JNull of
             Inl e \<Rightarrow> (Some e, a)
           | Inr logged \<Rightarrow>
               (case execute_command rt h command (blender a) of
                  (result, b, calls) \<Rightarrow>
                    client_sendall (dumps_encode rt result)
                      (a\<lparr>blender := b, host_calls := host_calls a @ calls\<rparr>))))"

definition handle_message :: "runtime \<Rightarrow> 'b host \<Rightarrow> bytes \<Rightarrow> 'b client \<Rightarrow> py_exc option \<times> 'b client" where
  "handle_message rt h data a =
     (case answer_body rt h data a of
        (Some e, a1) \<Rightarrow>
          if exc_class e = JSONDecodeErrorC
          then client_sendall (dumps_encode rt (failure (''Invalid JSON: '' @ exc_msg e))) a1
          else (Some e, a1)
      | (None, a1) \<Rightarrow> (None, a1))"

text \<open>
  One pass of \<^verbatim>\<open>while server_running\<close>: \<open>Inl\<close> goes round again, \<open>Inr\<close> leaves the loop
  (flag cleared, peer closed, or an exception caught by the outer handler).
\<close>

definition client_step :: "runtime \<Rightarrow> 'b host \<Rightarrow> 'b client \<Rightarrow> 'b client + 'b client" where
  "client_step rt h a =
     (let a1 = a\<lparr>running := stl (running a)\<rparr>
      in if \<not> shd (running a) then Inr a1
         else
           let a2 = a1\<lparr>client_recv := stl (client_recv a1)\<rparr>
           in (case shd (client_recv a1) of
                 RecvRaise e \<Rightarrow> Inr a2
               | RecvData data \<Rightarrow>
                   if data = [] then Inr a2
                   else (case handle_message rt h data a2 of
                           (Some e, a3) \<Rightarrow> Inr a3
                         | (None, a3) \<Rightarrow> Inl a3)))"

partial_function (option) client_loop ::
  "runtime \<Rightarrow> 'b host \<Rightarrow> 'b client \<Rightarrow> 'b client option" where
  "client_loop rt h a =
     (case client_step rt h a of
        Inl a1 \<Rightarrow> client_loop rt h a1
      | Inr a1 \<Rightarrow> Some a1)"

text \<open>\<^verbatim>\<open>handle_client\<close>: the loop, and \<^verbatim>\<open>client_socket.close()\<close> in the \<^verbatim>\<open>finally\<close> clause.\<close>

definition handle_client :: "runtime \<Rightarrow> 'b host \<Rightarrow> 'b client \<Rightarrow> 'b client option" where
  "handle_client rt h a =
     (case client_loop rt h a of
        None \<Rightarrow> None
      | Some a1 \<Rightarrow> Some (a1\<lparr>closed := True\<rparr>))"

section \<open>Reading the log\<close>

text \<open>
  The bytes that the \<^verbatim>\<open>recv\<close> calls of a stretch of the log delivered, in order, and
  whether a call found the stream at its end: the peer had closed (empty bytes) or the
  call timed out.
\<close>

fun received_bytes :: "effect list \<Rightarrow> bytes" where
  "received_bytes [] = []"
| "received_bytes (ERecv s (RecvData chunk) # es) = chunk @ received_bytes es"
| "received_bytes (e # es) = received_bytes es"

fun end_of_stream :: "effect \<Rightarrow> bool" where
  "end_of_stream (ERecv s (RecvData chunk)) = (chunk = [])"
| "end_of_stream (ERecv s (RecvRaise e)) = (exc_class e = SocketTimeout)"
| "end_of_stream e = False"

text \<open>
  The receive loop seen from the stream of \<^verbatim>\<open>recv\<close> outcomes. An outcome delivers its
  bytes, or none when it raises. It ends the stream when the peer has closed (empty
  bytes) or the call timed out. \<open>delivered n w\<close> is what the first \<open>n\<close> outcomes deliver
  together, and \<open>after_recvs s n w\<close> is the world once socket \<open>s\<close> has consumed them.
  \<open>keeps_reading rt acc rs\<close> says that each outcome of \<open>rs\<close> in turn delivers a chunk
  that is not empty and that the bytes accumulated with it, starting from \<open>acc\<close>, are
  rejected as not being a JSON document.
\<close>

fun outcome_bytes :: "recv_outcome \<Rightarrow> bytes" where
  "outcome_bytes (RecvData chunk) = chunk"
| "outcome_bytes (RecvRaise e) = []"

fun ends_stream :: "recv_outcome \<Rightarrow> bool" where
  "ends_stream (RecvData chunk) = (chunk = [])"
| "ends_stream (RecvRaise e) = (exc_class e = SocketTimeout)"

definition delivered :: "nat \<Rightarrow> world \<Rightarrow> bytes" where
  "delivered n w = concat (map outcome_bytes (stake n (recv_results w)))"

definition after_recvs :: "nat \<Rightarrow> nat \<Rightarrow> world \<Rightarrow> world" where
  "after_recvs s n w =
     w\<lparr>recv_results := sdrop n (recv_results w),
       io_log := io_log w @ map (ERecv s) (stake n (recv_results w))\<rparr>"

fun keeps_reading :: "runtime \<Rightarrow> bytes \<Rightarrow> recv_outcome list \<Rightarrow> bool" where
  "keeps_reading rt acc [] = True"
| "keeps_reading rt acc (RecvData chunk # rs) =
     (chunk \<noteq> [] \<and>
      (case decode_loads rt (acc @ chunk) of
         NotJSON m \<Rightarrow> keeps_reading rt (acc @ chunk) rs
       | _ \<Rightarrow> False))"
| "keeps_reading rt acc (RecvRaise e # rs) = False"

text \<open>The connection attempts logged between one state of the world and a later one.\<close>

definition connect_attempts :: "world \<Rightarrow> world \<Rightarrow> nat" where
  "connect_attempts w w' = length (filter is_connect (drop (length (io_log w)) (io_log w')))"

text \<open>
  The chunks held between two passes of the receive loop: none yet, or bytes that did
  not parse.
\<close>

definition pending :: "runtime \<Rightarrow> bytes list \<Rightarrow> bool" where
  "pending rt cs = (cs = [] \<or> (concat cs \<noteq> [] \<and> \<not> parses rt (concat cs)))"

definition loop_post :: "runtime \<Rightarrow> world \<Rightarrow> bytes list \<Rightarrow> loop_exit \<Rightarrow> world \<Rightarrow> bool" where
  "loop_post rt w cs ex w' =
     (\<exists>new. io_log w' = io_log w @ new \<and> new \<noteq> [] \<and> (\<forall>e\<in>set new. \<not> is_connect e) \<and>
        (case ex of
           Returned d \<Rightarrow> d = concat cs @ received_bytes new \<and> parses rt d
         | Broke cs' \<Rightarrow> concat cs' = concat cs @ received_bytes new \<and> end_of_stream (last new)
              \<and> cs' \<noteq> [] \<and> (pending rt cs \<longrightarrow> concat cs' \<noteq> [] \<and> \<not> parses rt (concat cs'))
         | Raised e \<Rightarrow> True))"

text \<open>
  The eight action names of the dispatcher, the action that a call into Blender
  belongs to (the membership test belongs to none), and whether a result dictionary
  reports success.
\<close>

definition recognized_actions :: "string list" where
  "recognized_actions =
     [''add_cube'', ''add_sphere'', ''add_cylinder'', ''delete_object'', ''move_object'',
      ''render'', ''save_file'', ''eval'']"

fun api_of :: "host_call \<Rightarrow> string" where
  "api_of (CubeAdd kw) = ''add_cube''"
| "api_of (SphereAdd kw) = ''add_sphere''"
| "api_of (CylinderAdd kw) = ''add_cylinder''"
| "api_of (ObjectsContains n) = ''''"
| "api_of (ObjectsRemove n) = ''delete_object''"
| "api_of (SetLocation n l) = ''move_object''"
| "api_of Render = ''render''"
| "api_of (SaveAsMainfile p) = ''save_file''"
| "api_of (Eval c) = ''eval''"

definition is_success :: "json \<Rightarrow> bool" where
  "is_success r = (py_get r ''success'' JNull = Inr (JBool True))"

section \<open>Concrete instances for the examples\<close>

text \<open>
  A runtime for the examples. Its \<^verbatim>\<open>json.dumps\<close> writes scalars and dictionaries of
  scalars the way Python does (strings without characters to escape, integers in
  decimal); its \<^verbatim>\<open>json.loads\<close> knows a few documents and rejects every other input with
  \<^verbatim>\<open>JSONDecodeError\<close>.
\<close>

fun decimal :: "nat \<Rightarrow> string" where
  "decimal n = (if n < 10 then [char_of (48 + n)] else decimal (n div 10) @ [char_of (48 + n mod 10)])"

declare decimal.simps [simp del]

fun join_with :: "string \<Rightarrow> string list \<Rightarrow> string" where
  "join_with sep [] = []"
| "join_with sep [x] = x"
| "join_with sep (x # y # ys) = x @ sep @ join_with sep (y # ys)"

definition example_scalar :: "json \<Rightarrow> string" where
  "example_scalar v =
     (case v of
        JNull \<Rightarrow> ''null''
      | JBool b \<Rightarrow> (if b then ''true'' else ''false'')
      | JInt i \<Rightarrow> (if i < 0 then CHR ''-'' # decimal (nat (- i)) else decimal (nat i))
      | JFloat r \<Rightarrow> ''0.0''
      | JStr x \<Rightarrow> CHR 0x22 # x @ [CHR 0x22]
      | JArr xs \<Rightarrow> ''[...]''
      | JObj d \<Rightarrow> ''{...}'')"

definition example_dumps :: "json \<Rightarrow> bytes" where
  "example_dumps v =
     (case v of
        JObj d \<Rightarrow>
          ''{'' @ join_with '', '' (map (\<lambda>kv. CHR 0x22 # fst kv @ [CHR 0x22] @ '': '' @ example_scalar (snd kv)) d)
            @ ''}''
      | _ \<Rightarrow> example_scalar v)"

definition example_loads :: "bytes \<Rightarrow> decoded" where
  "example_loads data =
     (if data = ''{}'' then Parsed (JObj [])
      else if data = ''[1]'' then Parsed (JArr [JInt 1])
      else if data = ''{\"result\": 1}'' then Parsed (JObj [(''result'', JInt 1)])
      else if data = ''{\"status\": \"error\"}'' then Parsed (JObj [(''status'', JStr ''error'')])
      else if data = ''{\"action\": \"render\"}'' then Parsed (JObj [(''action'', JStr ''render'')])
      else NotJSON ''Expecting value'')"

definition example_runtime :: runtime where
  "example_runtime =
     \<lparr>decode_loads = example_loads,
      dumps_encode = example_dumps,
      repr = example_scalar,
      int_of_str = (\<lambda>s. if s = ''9876'' then Inr 9876
                         else Inl (PyExc OtherException ''invalid literal for int()''))\<rparr>"

text \<open>
  A world in which connecting and sending succeed and \<^verbatim>\<open>recv\<close> follows the given script.
\<close>

definition example_world :: "py_exc option stream \<Rightarrow> recv_outcome stream \<Rightarrow> world" where
  "example_world cs rs =
     \<lparr>connect_results = cs, sendall_results = sconst None, recv_results = rs,
      uuids = sconst ''id'', clock = sconst 0, environ = (\<lambda>k. None),
      path_exists = (\<lambda>p. True), next_sock = 0, io_log = []\<rparr>"

definition example_server :: server where
  "example_server =
     \<lparr>heap = (\<lambda>r. \<lparr>host = ''localhost'', port = 9876, sock = None\<rparr>), next_ref = 0,
      blender_connection = None\<rparr>"

text \<open>A server whose global connection is the object at address 0, holding socket 0.\<close>

definition example_server_connected :: server where
  "example_server_connected =
     \<lparr>heap = (\<lambda>r. \<lparr>host = ''localhost'', port = 9876, sock = Some 0\<rparr>), next_ref = 1,
      blender_connection = Some 0\<rparr>"

text \<open>
  A Blender whose state is the list of object names; no call raises.
\<close>

fun example_host :: "string list host" where
  "example_host (CubeAdd kw) b = (Inr JNull, ''Cube'' # b)"
| "example_host (SphereAdd kw) b = (Inr JNull, ''Sphere'' # b)"
| "example_host (CylinderAdd kw) b = (Inr JNull, ''Cylinder'' # b)"
| "example_host (ObjectsContains n) b = (Inr (JBool (n \<in> JStr ` set b)), b)"
| "example_host (ObjectsRemove n) b = (Inr JNull, filter (\<lambda>x. JStr x \<noteq> n) b)"
| "example_host (SetLocation n l) b = (Inr JNull, b)"
| "example_host Render b = (Inr JNull, b)"
| "example_host (SaveAsMainfile p) b = (Inr JNull, b)"
| "example_host (Eval c) b = (Inr (JInt 1), b)"

definition example_client :: "recv_outcome stream \<Rightarrow> string list client" where
  "example_client rs =
     \<lparr>running = sconst True, client_recv = rs, client_send = sconst None, sent = [],
      closed = False, blender = [], host_calls = []\<rparr>"

section \<open>The receive loop\<close>

text \<open>
  A property of the loop is proved for every way it can end: it holds when the pass
  that leaves the loop is made, and a pass that goes round again preserves it.
\<close>

lemma receive_loop_cases:
  assumes "receive_loop rt s w cs = Some res"
    and "\<And>w cs w1 cs1. recv_step rt s w cs = Inl (w1, cs1) \<Longrightarrow> P w1 cs1 \<Longrightarrow> P w cs"
    and "\<And>w cs. recv_step rt s w cs = Inr res \<Longrightarrow> P w cs"
  shows "P w cs"
proof -
  have "rt' = rt \<longrightarrow> s' = s \<longrightarrow> y = res \<longrightarrow> P w cs"
    if "receive_loop rt' s' w cs = Some y" for rt' s' y
  proof (rule receive_loop.raw_induct[where P = "\<lambda>rt' s' w cs y. rt' = rt \<longrightarrow> s' = s \<longrightarrow> y = res \<longrightarrow> P w cs", OF _ that])
    fix loop rt' s' w cs y
    assume IH: "\<And>rt' s' w cs y. loop rt' s' w cs = Some y \<Longrightarrow> rt' = rt \<longrightarrow> s' = s \<longrightarrow> y = res \<longrightarrow> P w cs"
      and eq: "(case recv_step rt' s' w cs of Inl (w1, chunks1) \<Rightarrow> loop rt' s' w1 chunks1 | Inr r \<Rightarrow> Some r) = Some y"
    show "rt' = rt \<longrightarrow> s' = s \<longrightarrow> y = res \<longrightarrow> P w cs"
    proof (intro impI)
      assume a: "rt' = rt" "s' = s" "y = res"
      show "P w cs"
      proof (cases "recv_step rt s w cs")
        case (Inl p)
        obtain w1 cs1 where p: "p = (w1, cs1)" by (cases p)
        from eq a Inl p have "loop rt s w1 cs1 = Some res" by simp
        from IH[OF this] have "P w1 cs1" by simp
        with Inl p assms(2) show ?thesis by blast
      next
        case (Inr r)
        with eq a have "r = res" by simp
        with Inr assms(3) show ?thesis by simp
      qed
    qed
  qed
  with assms(1) show ?thesis by blast
qed

lemma received_bytes_append: "received_bytes (xs @ ys) = received_bytes xs @ received_bytes ys"
  by (induction xs rule: received_bytes.induct) auto

lemma recv_step_continue:
  assumes "recv_step rt s w cs = Inl (w1, cs1)"
  shows "\<exists>chunk. chunk \<noteq> [] \<and> cs1 = cs @ [chunk] \<and> io_log w1 = io_log w @ [ERecv s (RecvData chunk)]
           \<and> \<not> parses rt (concat cs1)"
  using assms
  by (auto simp: recv_step_def recv_body_def on_timeout_def parses_def Let_def
           split: recv_outcome.splits if_splits sum.splits prod.splits iter.splits decoded.splits)

lemma recv_step_exit_log:
  assumes "recv_step rt s w cs = Inr (ex, w1)"
  shows "io_log w1 = io_log w @ [ERecv s (shd (recv_results w))]"
  using assms
  by (auto simp: recv_step_def Let_def split: prod.splits iter.splits)

lemma recv_step_Returned:
  assumes "recv_step rt s w cs = Inr (Returned d, w1)"
  shows "\<exists>chunk. shd (recv_results w) = RecvData chunk \<and> d = concat cs @ chunk \<and> parses rt d"
  using assms
  by (auto simp: recv_step_def recv_body_def on_timeout_def parses_def Let_def
           split: recv_outcome.splits if_splits sum.splits prod.splits iter.splits decoded.splits)

lemma recv_step_Broke:
  assumes "recv_step rt s w cs = Inr (Broke cs', w1)"
  shows "cs' = cs \<and> cs \<noteq> [] \<and> end_of_stream (ERecv s (shd (recv_results w)))
          \<and> received_bytes [ERecv s (shd (recv_results w))] = []"
  using assms
  by (auto simp: recv_step_def recv_body_def on_timeout_def parses_def Let_def
           split: recv_outcome.splits if_splits sum.splits prod.splits iter.splits decoded.splits)

lemma receive_loop_Broke_nonempty:
  assumes "receive_loop rt s w cs = Some (Broke cs', w')"
  shows "cs' \<noteq> []"
  using assms
  by (rule receive_loop_cases[where P = "\<lambda>w cs. cs' \<noteq> []"]) (auto dest: recv_step_Broke)

lemma receive_loop_post:
  assumes "receive_loop rt s w cs = Some (ex, w')"
  shows "loop_post rt w cs ex w'"
  using assms
proof (rule receive_loop_cases[where P = "\<lambda>w cs. loop_post rt w cs ex w'"])
  fix w cs w1 cs1
  assume st: "recv_step rt s w cs = Inl (w1, cs1)" and IH: "loop_post rt w1 cs1 ex w'"
  from recv_step_continue[OF st] obtain chunk where
    c: "chunk \<noteq> []" "cs1 = cs @ [chunk]" "io_log w1 = io_log w @ [ERecv s (RecvData chunk)]"
       "\<not> parses rt (concat cs1)" by blast
  from c have p: "pending rt cs1" by (simp add: pending_def)
  from IH obtain new where n: "io_log w' = io_log w1 @ new" "new \<noteq> []" "\<forall>e\<in>set new. \<not> is_connect e"
    "(case ex of
           Returned d \<Rightarrow> d = concat cs1 @ received_bytes new \<and> parses rt d
         | Broke cs' \<Rightarrow> concat cs' = concat cs1 @ received_bytes new \<and> end_of_stream (last new)
              \<and> cs' \<noteq> [] \<and> (pending rt cs1 \<longrightarrow> concat cs' \<noteq> [] \<and> \<not> parses rt (concat cs'))
         | Raised e \<Rightarrow> True)"
    unfolding loop_post_def by blast
  show "loop_post rt w cs ex w'"
    unfolding loop_post_def
    apply (rule exI[where x = "ERecv s (RecvData chunk) # new"])
    using c n p by (cases ex) (auto simp: received_bytes_append)
next
  fix w cs
  assume st: "recv_step rt s w cs = Inr (ex, w')"
  show "loop_post rt w cs ex w'"
    unfolding loop_post_def
    apply (rule exI[where x = "[ERecv s (shd (recv_results w))]"])
    using recv_step_exit_log[OF st]
    apply (cases ex)
    using st apply (auto dest!: recv_step_Returned recv_step_Broke simp: pending_def)
    done
qed

lemma after_recvs_0: "after_recvs s 0 w = w"
  by (simp add: after_recvs_def)

lemma after_recvs_Suc: "after_recvs s n (after_recvs s (Suc 0) w) = after_recvs s (Suc n) w"
  by (simp add: after_recvs_def)

lemma after_recvs_step: "after_recvs s (Suc 0) (after_recvs s n w) = after_recvs s (Suc n) w"
  by (simp add: after_recvs_def stake_Suc del: stake.simps)

lemma recv_step_continue_iff:
  "recv_step rt s w cs = Inl (w1, cs1) \<longleftrightarrow>
     (\<exists>c m. shd (recv_results w) = RecvData c \<and> c \<noteq> [] \<and> decode_loads rt (concat cs @ c) = NotJSON m
        \<and> cs1 = cs @ [c] \<and> w1 = after_recvs s (Suc 0) w)"
  by (auto simp: recv_step_def recv_body_def on_timeout_def after_recvs_def Let_def
           split: recv_outcome.splits if_splits prod.splits iter.splits decoded.splits)

lemma recv_step_return:
  assumes "shd (recv_results w) = RecvData c" "c \<noteq> []" "decode_loads rt (concat cs @ c) = Parsed v"
  shows "recv_step rt s w cs = Inr (Returned (concat cs @ c), after_recvs s (Suc 0) w)"
  using assms by (simp add: recv_step_def recv_body_def on_timeout_def after_recvs_def Let_def)

lemma recv_step_break:
  assumes "ends_stream (shd (recv_results w))" "cs \<noteq> []"
  shows "recv_step rt s w cs = Inr (Broke cs, after_recvs s (Suc 0) w)"
  using assms
  by (cases "shd (recv_results w)")
     (auto simp: recv_step_def recv_body_def on_timeout_def after_recvs_def Let_def)

lemma recv_step_exit:
  assumes "recv_step rt s w cs = Inr (ex, w')"
  shows "w' = after_recvs s (Suc 0) w \<and>
         (case ex of
            Returned d \<Rightarrow> (\<exists>c. shd (recv_results w) = RecvData c \<and> c \<noteq> [] \<and> d = concat cs @ c \<and> parses rt d)
          | Broke cs' \<Rightarrow> cs' = cs \<and> cs \<noteq> [] \<and> ends_stream (shd (recv_results w))
          | Raised e \<Rightarrow> True)"
  using assms
  by (auto simp: recv_step_def recv_body_def on_timeout_def after_recvs_def parses_def Let_def
           split: recv_outcome.splits if_splits prod.splits iter.splits decoded.splits loop_exit.splits)

lemma keeps_reading_unparsed:
  assumes "keeps_reading rt acc outs" "outs \<noteq> []"
  shows "\<not> parses rt (acc @ concat (map outcome_bytes outs)) \<and> concat (map outcome_bytes outs) \<noteq> []"
  using assms
proof (induction outs arbitrary: acc)
  case Nil
  then show ?case by simp
next
  case (Cons r rs)
  then obtain c where r: "r = RecvData c" by (cases r) auto
  with Cons.prems obtain m where c: "c \<noteq> []" "decode_loads rt (acc @ c) = NotJSON m"
    "keeps_reading rt (acc @ c) rs"
    by (auto split: decoded.splits)
  show ?case
  proof (cases "rs = []")
    case True
    with r c show ?thesis by (simp add: parses_def)
  next
    case False
    from Cons.IH[OF c(3) False] r c show ?thesis by simp
  qed
qed

lemma receive_loop_run:
  assumes "keeps_reading rt (concat cs) (stake n (recv_results w))"
  shows "receive_loop rt s w cs =
           receive_loop rt s (after_recvs s n w) (cs @ map outcome_bytes (stake n (recv_results w)))"
  using assms
proof (induction n arbitrary: w cs)
  case 0
  then show ?case by (simp add: after_recvs_0)
next
  case (Suc n)
  from Suc.prems obtain c where r: "shd (recv_results w) = RecvData c"
    by (cases "shd (recv_results w)") auto
  with Suc.prems obtain m where c: "c \<noteq> []" "decode_loads rt (concat cs @ c) = NotJSON m"
    and k: "keeps_reading rt (concat cs @ c) (stake n (stl (recv_results w)))"
    by (auto split: decoded.splits)
  let ?w1 = "after_recvs s (Suc 0) w"
  have st: "recv_step rt s w cs = Inl (?w1, cs @ [c])"
    using r c by (simp add: recv_step_continue_iff)
  have rr: "recv_results ?w1 = stl (recv_results w)" by (simp add: after_recvs_def)
  from k have "keeps_reading rt (concat (cs @ [c])) (stake n (recv_results ?w1))"
    by (simp add: rr)
  from Suc.IH[OF this]
  have "receive_loop rt s ?w1 (cs @ [c]) =
          receive_loop rt s (after_recvs s n ?w1) ((cs @ [c]) @ map outcome_bytes (stake n (recv_results ?w1)))" .
  moreover have "receive_loop rt s w cs = receive_loop rt s ?w1 (cs @ [c])"
    by (subst receive_loop.simps) (simp add: st)
  ultimately show ?case
    using r by (simp add: after_recvs_Suc rr)
qed

lemma ends_stream_no_bytes: "ends_stream r \<Longrightarrow> outcome_bytes r = []"
  by (cases r) auto

lemma delivered_Suc: "delivered (Suc n) w = delivered n w @ outcome_bytes (recv_results w !! n)"
  by (simp add: delivered_def stake_Suc del: stake.simps)

lemma delivered_shift:
  "delivered (Suc n) w = outcome_bytes (shd (recv_results w)) @ delivered n (after_recvs s (Suc 0) w)"
  by (simp add: delivered_def after_recvs_def)

lemma receive_loop_parse_returns:
  assumes k: "keeps_reading rt [] (stake n (recv_results w))"
    and r: "recv_results w !! n = RecvData c" and c: "c \<noteq> []"
    and p: "parses rt (delivered (Suc n) w)"
  shows "receive_loop rt s w [] = Some (Returned (delivered (Suc n) w), after_recvs s (Suc n) w)"
proof -
  let ?wn = "after_recvs s n w"
  let ?cs = "map outcome_bytes (stake n (recv_results w))"
  from k have run: "receive_loop rt s w [] = receive_loop rt s ?wn ?cs"
    using receive_loop_run[of rt "[]" n w s] by simp
  have hd: "shd (recv_results ?wn) = RecvData c" using r by (simp add: after_recvs_def)
  have d: "concat ?cs @ c = delivered (Suc n) w"
    unfolding delivered_Suc using r by (simp add: delivered_def)
  from p d obtain v where "decode_loads rt (concat ?cs @ c) = Parsed v"
    by (auto simp: parses_def split: decoded.splits)
  from recv_step_return[OF hd c this, of s]
  have "recv_step rt s ?wn ?cs = Inr (Returned (delivered (Suc n) w), after_recvs s (Suc n) w)"
    by (simp add: d after_recvs_step)
  then have "receive_loop rt s ?wn ?cs = Some (Returned (delivered (Suc n) w), after_recvs s (Suc n) w)"
    by (subst receive_loop.simps) simp
  with run show ?thesis by simp
qed

lemma receive_loop_end_breaks:
  assumes k: "keeps_reading rt [] (stake n (recv_results w))"
    and n: "0 < n" and e: "ends_stream (recv_results w !! n)"
  shows "receive_loop rt s w [] =
           Some (Broke (map outcome_bytes (stake n (recv_results w))), after_recvs s (Suc n) w)"
proof -
  let ?wn = "after_recvs s n w"
  let ?cs = "map outcome_bytes (stake n (recv_results w))"
  from k have run: "receive_loop rt s w [] = receive_loop rt s ?wn ?cs"
    using receive_loop_run[of rt "[]" n w s] by simp
  have hd: "ends_stream (shd (recv_results ?wn))" using e by (simp add: after_recvs_def)
  from n have ne: "?cs \<noteq> []" by (cases n) simp_all
  from recv_step_break[OF hd ne, of rt s]
  have "recv_step rt s ?wn ?cs = Inr (Broke ?cs, after_recvs s (Suc n) w)"
    by (simp add: after_recvs_step)
  then have "receive_loop rt s ?wn ?cs = Some (Broke ?cs, after_recvs s (Suc n) w)"
    by (subst receive_loop.simps) simp
  with run show ?thesis by simp
qed

lemma receive_loop_exit_prefix:
  assumes "receive_loop rt s w cs = Some (ex, w')"
  shows "\<exists>n. keeps_reading rt (concat cs) (stake n (recv_results w)) \<and> w' = after_recvs s (Suc n) w \<and>
           (case ex of
              Returned d \<Rightarrow> d = concat cs @ delivered (Suc n) w
                 \<and> (\<exists>c. recv_results w !! n = RecvData c \<and> c \<noteq> []) \<and> parses rt d
            | Broke cs' \<Rightarrow> concat cs' = concat cs @ delivered (Suc n) w
                 \<and> ends_stream (recv_results w !! n) \<and> (cs = [] \<longrightarrow> 0 < n)
            | Raised e \<Rightarrow> True)"
  using assms
proof (rule receive_loop_cases[where P = "\<lambda>w cs.
    \<exists>n. keeps_reading rt (concat cs) (stake n (recv_results w)) \<and> w' = after_recvs s (Suc n) w \<and>
           (case ex of
              Returned d \<Rightarrow> d = concat cs @ delivered (Suc n) w
                 \<and> (\<exists>c. recv_results w !! n = RecvData c \<and> c \<noteq> []) \<and> parses rt d
            | Broke cs' \<Rightarrow> concat cs' = concat cs @ delivered (Suc n) w
                 \<and> ends_stream (recv_results w !! n) \<and> (cs = [] \<longrightarrow> 0 < n)
            | Raised e \<Rightarrow> True)"])
  fix w cs w1 cs1
  assume st: "recv_step rt s w cs = Inl (w1, cs1)"
    and IH: "\<exists>n. keeps_reading rt (concat cs1) (stake n (recv_results w1)) \<and> w' = after_recvs s (Suc n) w1 \<and>
           (case ex of
              Returned d \<Rightarrow> d = concat cs1 @ delivered (Suc n) w1
                 \<and> (\<exists>c. recv_results w1 !! n = RecvData c \<and> c \<noteq> []) \<and> parses rt d
            | Broke cs' \<Rightarrow> concat cs' = concat cs1 @ delivered (Suc n) w1
                 \<and> ends_stream (recv_results w1 !! n) \<and> (cs1 = [] \<longrightarrow> 0 < n)
            | Raised e \<Rightarrow> True)"
  from st obtain c m where c: "shd (recv_results w) = RecvData c" "c \<noteq> []"
    "decode_loads rt (concat cs @ c) = NotJSON m" "cs1 = cs @ [c]" "w1 = after_recvs s (Suc 0) w"
    by (auto simp: recv_step_continue_iff)
  have rr: "recv_results w1 = stl (recv_results w)" using c by (simp add: after_recvs_def)
  from IH obtain n where n: "keeps_reading rt (concat cs1) (stake n (recv_results w1))"
    "w' = after_recvs s (Suc n) w1"
    "(case ex of
              Returned d \<Rightarrow> d = concat cs1 @ delivered (Suc n) w1
                 \<and> (\<exists>c. recv_results w1 !! n = RecvData c \<and> c \<noteq> []) \<and> parses rt d
            | Broke cs' \<Rightarrow> concat cs' = concat cs1 @ delivered (Suc n) w1
                 \<and> ends_stream (recv_results w1 !! n) \<and> (cs1 = [] \<longrightarrow> 0 < n)
            | Raised e \<Rightarrow> True)" by blast
  have k: "keeps_reading rt (concat cs) (stake (Suc n) (recv_results w))"
    using n(1) c rr by simp
  have a: "w' = after_recvs s (Suc (Suc n)) w"
    using n(2) c by (simp only: after_recvs_Suc)
  have d: "delivered (Suc (Suc n)) w = c @ delivered (Suc n) w1"
    using delivered_shift[of "Suc n" w s] c by simp
  have i: "recv_results w !! Suc n = recv_results w1 !! n" by (simp add: rr)
  show "\<exists>n. keeps_reading rt (concat cs) (stake n (recv_results w)) \<and> w' = after_recvs s (Suc n) w \<and>
           (case ex of
              Returned d \<Rightarrow> d = concat cs @ delivered (Suc n) w
                 \<and> (\<exists>c. recv_results w !! n = RecvData c \<and> c \<noteq> []) \<and> parses rt d
            | Broke cs' \<Rightarrow> concat cs' = concat cs @ delivered (Suc n) w
                 \<and> ends_stream (recv_results w !! n) \<and> (cs = [] \<longrightarrow> 0 < n)
            | Raised e \<Rightarrow> True)"
    apply (rule exI[where x = "Suc n"])
    using k a d i n(3) c(4) by (cases ex) (simp_all del: stake.simps snth.simps)
next
  fix w cs
  assume st: "recv_step rt s w cs = Inr (ex, w')"
  show "\<exists>n. keeps_reading rt (concat cs) (stake n (recv_results w)) \<and> w' = after_recvs s (Suc n) w \<and>
           (case ex of
              Returned d \<Rightarrow> d = concat cs @ delivered (Suc n) w
                 \<and> (\<exists>c. recv_results w !! n = RecvData c \<and> c \<noteq> []) \<and> parses rt d
            | Broke cs' \<Rightarrow> concat cs' = concat cs @ delivered (Suc n) w
                 \<and> ends_stream (recv_results w !! n) \<and> (cs = [] \<longrightarrow> 0 < n)
            | Raised e \<Rightarrow> True)"
    apply (rule exI[where x = 0])
    using recv_step_exit[OF st]
    by (cases ex) (auto simp: delivered_def ends_stream_no_bytes)
qed

lemmas example_simps =
  example_runtime_def example_loads_def example_world_def example_server_def example_client_def
  example_dumps_def example_scalar_def example_server_connected_def

lemmas recv_simps = recv_step_def recv_body_def on_timeout_def Let_def

text \<open>
  Claim C8. In \<^verbatim>\<open>_receive_response\<close> the final \<^verbatim>\<open>raise Exception("No data received")\<close>
  cannot be reached: whenever the loop is left by \<^verbatim>\<open>break\<close>, whatever chunks it started
  with, the list of chunks is not empty, so the statement after the loop returns the
  joined bytes.
\<close>

theorem no_data_branch_unreachable:
  assumes "receive_loop rt s w chunks = Some (Broke cs, w')"
  shows "cs \<noteq> [] \<and> after_loop (Broke cs) = Inr (concat cs)"
proof -
  from receive_loop_Broke_nonempty[OF assms] have "cs \<noteq> []" .
  then show ?thesis by (simp add: after_loop_def)
qed

theorem no_data_branch_unreachable_witness:
  "fst (the (receive_loop example_runtime 0
       (example_world (sconst None) (RecvData ''{'' ## sconst (RecvData []))) [])) = Broke [''{'']
   \<and> [''{''] \<noteq> ([] :: bytes list) \<and> after_loop (Broke [''{'']) = Inr (concat [''{''])"
proof -
  have "\<exists>w'. receive_loop example_runtime 0
       (example_world (sconst None) (RecvData ''{'' ## sconst (RecvData []))) [] = Some (Broke [''{''], w')"
    by (simp add: receive_loop.simps recv_simps example_simps)
  then obtain w' where e: "receive_loop example_runtime 0
       (example_world (sconst None) (RecvData ''{'' ## sconst (RecvData []))) [] = Some (Broke [''{''], w')"
    by blast
  from no_data_branch_unreachable[OF e] e show ?thesis by simp
qed

text \<open>
  Claim C1, as amended. \<^verbatim>\<open>_receive_response\<close> accumulates chunks until their
  concatenation parses: when each of the first \<open>n\<close> \<^verbatim>\<open>recv\<close> calls delivers a chunk with
  which the accumulated bytes are not yet a JSON document, and the next chunk makes
  them parse, the function returns exactly those bytes and has made exactly \<open>n + 1\<close>
  calls. When instead, after at least one such chunk, the next call finds the peer
  closed or times out, it returns the accumulated bytes, which are not empty and do
  not parse. It returns bytes in no other way: whatever it returns is the
  concatenation of everything delivered, and either the last chunk made it parse, with
  no earlier accumulation parsing, or the stream ended after at least one chunk.
\<close>

theorem receive_response_result:
  "(\<forall>s n c. sock self = Some s \<and> keeps_reading rt [] (stake n (recv_results w))
        \<and> recv_results w !! n = RecvData c \<and> c \<noteq> [] \<and> parses rt (delivered (Suc n) w) \<longrightarrow>
      receive_response rt self w = Some (Inr (delivered (Suc n) w), after_recvs s (Suc n) w))
 \<and> (\<forall>s n. sock self = Some s \<and> keeps_reading rt [] (stake n (recv_results w))
        \<and> 0 < n \<and> ends_stream (recv_results w !! n) \<longrightarrow>
      receive_response rt self w = Some (Inr (delivered (Suc n) w), after_recvs s (Suc n) w)
      \<and> delivered (Suc n) w \<noteq> [] \<and> \<not> parses rt (delivered (Suc n) w))
 \<and> (\<forall>data w'. receive_response rt self w = Some (Inr data, w') \<longrightarrow>
      (\<exists>s n. sock self = Some s \<and> keeps_reading rt [] (stake n (recv_results w))
          \<and> w' = after_recvs s (Suc n) w \<and> data = delivered (Suc n) w
          \<and> ((\<exists>c. recv_results w !! n = RecvData c \<and> c \<noteq> [] \<and> parses rt data)
             \<or> (0 < n \<and> ends_stream (recv_results w !! n) \<and> data \<noteq> [] \<and> \<not> parses rt data))))"
proof -
  have A: "\<forall>s n c. sock self = Some s \<and> keeps_reading rt [] (stake n (recv_results w))
        \<and> recv_results w !! n = RecvData c \<and> c \<noteq> [] \<and> parses rt (delivered (Suc n) w) \<longrightarrow>
      receive_response rt self w = Some (Inr (delivered (Suc n) w), after_recvs s (Suc n) w)"
  proof (intro allI impI)
    fix s n c
    assume a: "sock self = Some s \<and> keeps_reading rt [] (stake n (recv_results w))
        \<and> recv_results w !! n = RecvData c \<and> c \<noteq> [] \<and> parses rt (delivered (Suc n) w)"
    then have "receive_loop rt s w [] = Some (Returned (delivered (Suc n) w), after_recvs s (Suc n) w)"
      using receive_loop_parse_returns[of rt n w c s] by blast
    with a show "receive_response rt self w = Some (Inr (delivered (Suc n) w), after_recvs s (Suc n) w)"
      by (simp add: receive_response_def after_loop_def)
  qed
  have unparsed: "delivered (Suc n) w = delivered n w \<and> delivered n w \<noteq> [] \<and> \<not> parses rt (delivered n w)"
    if "keeps_reading rt [] (stake n (recv_results w))" "0 < n" "ends_stream (recv_results w !! n)" for n
  proof -
    from that(2) have "stake n (recv_results w) \<noteq> []" by (cases n) simp_all
    from keeps_reading_unparsed[OF that(1) this] that(3) show ?thesis
      by (simp add: delivered_Suc ends_stream_no_bytes) (simp add: delivered_def)
  qed
  have B: "\<forall>s n. sock self = Some s \<and> keeps_reading rt [] (stake n (recv_results w))
        \<and> 0 < n \<and> ends_stream (recv_results w !! n) \<longrightarrow>
      receive_response rt self w = Some (Inr (delivered (Suc n) w), after_recvs s (Suc n) w)
      \<and> delivered (Suc n) w \<noteq> [] \<and> \<not> parses rt (delivered (Suc n) w)"
  proof (intro allI impI)
    fix s n
    assume a: "sock self = Some s \<and> keeps_reading rt [] (stake n (recv_results w))
        \<and> 0 < n \<and> ends_stream (recv_results w !! n)"
    then have l: "receive_loop rt s w [] =
        Some (Broke (map outcome_bytes (stake n (recv_results w))), after_recvs s (Suc n) w)"
      using receive_loop_end_breaks[of rt n w s] by blast
    from a have u: "delivered (Suc n) w = delivered n w \<and> delivered n w \<noteq> [] \<and> \<not> parses rt (delivered n w)"
      using unparsed[of n] by blast
    from a have "map outcome_bytes (stake n (recv_results w)) \<noteq> []" by (cases n) simp_all
    with l a u
    show "receive_response rt self w = Some (Inr (delivered (Suc n) w), after_recvs s (Suc n) w)
      \<and> delivered (Suc n) w \<noteq> [] \<and> \<not> parses rt (delivered (Suc n) w)"
      by (simp add: receive_response_def after_loop_def) (simp add: delivered_def)
  qed
  have C: "\<forall>data w'. receive_response rt self w = Some (Inr data, w') \<longrightarrow>
      (\<exists>s n. sock self = Some s \<and> keeps_reading rt [] (stake n (recv_results w))
          \<and> w' = after_recvs s (Suc n) w \<and> data = delivered (Suc n) w
          \<and> ((\<exists>c. recv_results w !! n = RecvData c \<and> c \<noteq> [] \<and> parses rt data)
             \<or> (0 < n \<and> ends_stream (recv_results w !! n) \<and> data \<noteq> [] \<and> \<not> parses rt data)))"
  proof (intro allI impI)
    fix data w'
    assume r: "receive_response rt self w = Some (Inr data, w')"
    then obtain s ex where s: "sock self = Some s"
      and l: "receive_loop rt s w [] = Some (ex, w')" and a: "after_loop ex = Inr data"
      by (auto simp: receive_response_def split: option.splits prod.splits)
    from receive_loop_exit_prefix[OF l] obtain n where
      n: "keeps_reading rt [] (stake n (recv_results w))" "w' = after_recvs s (Suc n) w"
        "(case ex of
              Returned d \<Rightarrow> d = concat [] @ delivered (Suc n) w
                 \<and> (\<exists>c. recv_results w !! n = RecvData c \<and> c \<noteq> []) \<and> parses rt d
            | Broke cs' \<Rightarrow> concat cs' = concat [] @ delivered (Suc n) w
                 \<and> ends_stream (recv_results w !! n) \<and> ([] = ([]::bytes list) \<longrightarrow> 0 < n)
            | Raised e \<Rightarrow> True)"
      by auto
    show "\<exists>s n. sock self = Some s \<and> keeps_reading rt [] (stake n (recv_results w))
          \<and> w' = after_recvs s (Suc n) w \<and> data = delivered (Suc n) w
          \<and> ((\<exists>c. recv_results w !! n = RecvData c \<and> c \<noteq> [] \<and> parses rt data)
             \<or> (0 < n \<and> ends_stream (recv_results w !! n) \<and> data \<noteq> [] \<and> \<not> parses rt data))"
    proof (cases ex)
      case (Returned d)
      with a n s show ?thesis by (auto simp: after_loop_def)
    next
      case (Broke cs')
      with n have e: "concat cs' = delivered (Suc n) w" "ends_stream (recv_results w !! n)" "0 < n"
        by simp_all
      from unparsed[OF n(1) e(3) e(2)] e a Broke
      have "data = delivered (Suc n) w \<and> data \<noteq> [] \<and> \<not> parses rt data"
        by (auto simp: after_loop_def split: if_splits)
      with s n e show ?thesis by blast
    next
      case (Raised e)
      with a show ?thesis by (simp add: after_loop_def)
    qed
  qed
  show ?thesis by (rule conjI[OF A conjI[OF B C]])
qed

theorem receive_response_result_witness:
  "receive_response example_runtime \<lparr>host = ''h'', port = 1, sock = Some 0\<rparr>
       (example_world (sconst None) (RecvData ''{'' ## RecvData ''}'' ## sconst (RecvData [])))
     = Some (Inr ''{}'',
         after_recvs 0 (Suc (Suc 0))
           (example_world (sconst None) (RecvData ''{'' ## RecvData ''}'' ## sconst (RecvData []))))
   \<and> parses example_runtime ''{}''"
proof -
  let ?w = "example_world (sconst None) (RecvData ''{'' ## RecvData ''}'' ## sconst (RecvData []))"
  let ?c = "\<lparr>host = ''h'', port = 1, sock = Some (0::nat)\<rparr>"
  have h: "sock ?c = Some 0 \<and> keeps_reading example_runtime [] (stake (Suc 0) (recv_results ?w))
        \<and> recv_results ?w !! Suc 0 = RecvData ''}'' \<and> ''}'' \<noteq> []
        \<and> parses example_runtime (delivered (Suc (Suc 0)) ?w)"
    by (simp add: example_simps parses_def delivered_def)
  have d: "delivered (Suc (Suc 0)) ?w = ''{}''" by (simp add: example_simps delivered_def)
  from receive_response_result[of ?c example_runtime ?w, THEN conjunct1, rule_format, OF h] h d
  show ?thesis by simp
qed

text \<open>
  The claim as first stated fails: the peer sends an opening brace and closes, and the
  brace is returned although it is not a JSON document.
\<close>

theorem receive_response_unparsed_counterexample:
  "fst (the (receive_response example_runtime \<lparr>host = ''h'', port = 1, sock = Some 0\<rparr>
       (example_world (sconst None) (RecvData ''{'' ## sconst (RecvData []))))) = Inr ''{''
   \<and> \<not> parses example_runtime ''{''"
  by (simp add: receive_response_def receive_loop.simps recv_simps after_loop_def parses_def example_simps)

section \<open>Sending a command: what is logged and what is left behind\<close>

lemma receive_response_log:
  assumes "receive_response rt self w = Some (r, w')"
  shows "\<exists>new. io_log w' = io_log w @ new \<and> filter is_connect new = []"
proof (cases "sock self")
  case None
  with assms show ?thesis by (simp add: receive_response_def)
next
  case (Some s)
  with assms obtain ex where "receive_loop rt s w [] = Some (ex, w')"
    by (auto simp: receive_response_def split: option.splits prod.splits)
  from receive_loop_post[OF this] show ?thesis
    unfolding loop_post_def by (auto simp: filter_empty_conv)
qed

lemma exchange_log:
  assumes "exchange rt self command w = Some (r, w')"
  shows "\<exists>new. io_log w' = io_log w @ new \<and> filter is_connect new = []"
proof (cases "sock self")
  case None
  with assms show ?thesis by (simp add: exchange_def)
next
  case (Some s)
  show ?thesis
  proof (cases "shd (sendall_results w)")
    case (Some e)
    with assms \<open>sock self = Some s\<close> show ?thesis by (auto simp: exchange_def Let_def)
  next
    case None
    let ?w1 = "w\<lparr>sendall_results := stl (sendall_results w),
                  io_log := io_log w @ [ESendall s (dumps_encode rt command) None]\<rparr>"
    from assms None \<open>sock self = Some s\<close> obtain r1 where "receive_response rt self ?w1 = Some (r1, w')"
      by (auto simp: exchange_def Let_def split: option.splits prod.splits sum.splits)
    from receive_response_log[OF this] show ?thesis by auto
  qed
qed

lemma send_command_log:
  assumes "send_command rt self ct p w = Some (r, self', w')"
  shows "\<exists>new. io_log w' = io_log w @ new \<and>
           filter is_connect new =
             (if sock self = None
              then [EConnect (next_sock w) (host self) (port self) (shd (connect_results w))] else [])"
proof (cases "sock self")
  case None
  show ?thesis
  proof (cases "shd (connect_results w)")
    case (Some e)
    with assms None show ?thesis by (auto simp: send_command_def connect_def Let_def)
  next
    case ok: None
    obtain self1 w1 where c: "connect self w = (True, self1, w1)"
      and l1: "io_log w1 = io_log w @ [EConnect (next_sock w) (host self) (port self) (shd (connect_results w))]"
      using None ok by (auto simp: connect_def Let_def)
    let ?w2 = "w1\<lparr>uuids := stl (uuids w1), clock := stl (clock w1)\<rparr>"
    from assms None c obtain r1 where
      "exchange rt self1 (build_command ct p (shd (uuids w1)) (shd (clock w1))) ?w2 = Some (r1, w')"
      by (auto simp: send_command_def Let_def split: option.splits prod.splits sum.splits)
    from exchange_log[OF this] l1 None show ?thesis by auto
  qed
next
  case (Some s)
  let ?w2 = "w\<lparr>uuids := stl (uuids w), clock := stl (clock w)\<rparr>"
  from assms Some obtain r1 where
    "exchange rt self (build_command ct p (shd (uuids w)) (shd (clock w))) ?w2 = Some (r1, w')"
    by (auto simp: send_command_def Let_def split: option.splits prod.splits sum.splits)
  from exchange_log[OF this] Some show ?thesis by auto
qed

lemma send_command_connect_fails:
  assumes "sock self = None" and "shd (connect_results w) = Some e"
  shows "send_command rt self ct p w =
           Some (Inl (PyExc ConnectionErrorC ''Not connected to Blender''), self\<lparr>sock := None\<rparr>,
                 w\<lparr>connect_results := stl (connect_results w), next_sock := Suc (next_sock w),
                   io_log := io_log w @ [EConnect (next_sock w) (host self) (port self) (Some e)]\<rparr>)"
  using assms by (simp add: send_command_def connect_def Let_def)

lemma send_command_error_sock:
  assumes "send_command rt self ct p w = Some (Inl e, self', w')"
  shows "sock self' = None"
  using assms
  by (auto simp: send_command_def connect_def Let_def split: if_splits option.splits prod.splits sum.splits)

lemmas send_simps = send_command_def connect_def exchange_def receive_response_def after_loop_def
  check_response_def translate_error_def build_command_def py_get_def py_str_def


text \<open>
  Claim C3. One call of \<^verbatim>\<open>send_command\<close> tries to connect at most once. Without a
  socket and with a connection attempt that fails, the call raises
  \<^verbatim>\<open>ConnectionError("Not connected to Blender")\<close> and that one attempt is all it has done.
  Whenever the call returns or raises, the log shows exactly one connection attempt
  if there was no socket, and none if there was one.
\<close>

theorem single_reconnect:
  "(sock self = None \<and> shd (connect_results w) \<noteq> None \<longrightarrow>
      (\<exists>self' w'. send_command rt self ct p w =
                Some (Inl (PyExc ConnectionErrorC ''Not connected to Blender''), self', w')
            \<and> sock self' = None
            \<and> io_log w' = io_log w @ [EConnect (next_sock w) (host self) (port self) (shd (connect_results w))]))
   \<and> (\<forall>r self' w'. send_command rt self ct p w = Some (r, self', w') \<longrightarrow>
         connect_attempts w w' = (if sock self = None then 1 else 0))"
proof (intro conjI impI allI)
  assume "sock self = None \<and> shd (connect_results w) \<noteq> None"
  then obtain e where a: "sock self = None" "shd (connect_results w) = Some e" by auto
  show "\<exists>self' w'. send_command rt self ct p w =
                Some (Inl (PyExc ConnectionErrorC ''Not connected to Blender''), self', w')
            \<and> sock self' = None
            \<and> io_log w' = io_log w @ [EConnect (next_sock w) (host self) (port self) (shd (connect_results w))]"
    unfolding send_command_connect_fails[OF a] using a by simp
next
  fix r self' w'
  assume "send_command rt self ct p w = Some (r, self', w')"
  from send_command_log[OF this] show "connect_attempts w w' = (if sock self = None then 1 else 0)"
    by (auto simp: connect_attempts_def)
qed

theorem single_reconnect_witness:
  "fst (the (send_command example_runtime \<lparr>host = ''localhost'', port = 9876, sock = None\<rparr> ''ping'' JNull
        (example_world (sconst (Some (PyExc ConnectionErrorC ''refused''))) (sconst (RecvData [])))))
     = Inl (PyExc ConnectionErrorC ''Not connected to Blender'')
   \<and> connect_attempts
        (example_world (sconst (Some (PyExc ConnectionErrorC ''refused''))) (sconst (RecvData [])))
        (snd (snd (the (send_command example_runtime \<lparr>host = ''localhost'', port = 9876, sock = None\<rparr>
           ''ping'' JNull
           (example_world (sconst (Some (PyExc ConnectionErrorC ''refused''))) (sconst (RecvData []))))))) = 1
   \<and> connect_attempts
        (example_world (sconst None) (RecvData ''{}'' ## sconst (RecvData [])))
        (snd (snd (the (send_command example_runtime \<lparr>host = ''localhost'', port = 9876, sock = Some 0\<rparr>
           ''ping'' JNull
           (example_world (sconst None) (RecvData ''{}'' ## sconst (RecvData []))))))) = 0"
proof -
  let ?c = "\<lparr>host = ''localhost'', port = 9876, sock = None\<rparr>"
  let ?w = "example_world (sconst (Some (PyExc ConnectionErrorC ''refused''))) (sconst (RecvData []))"
  let ?c2 = "\<lparr>host = ''localhost'', port = 9876, sock = Some (0::nat)\<rparr>"
  let ?w2 = "example_world (sconst None) (RecvData ''{}'' ## sconst (RecvData []))"
  have a: "sock ?c = None \<and> shd (connect_results ?w) \<noteq> None"
    by (simp add: example_world_def)
  have "\<exists>r c' w'. send_command example_runtime ?c2 ''ping'' JNull ?w2 = Some (r, c', w')"
    by (simp add: send_simps receive_loop.simps recv_simps example_simps)
  then obtain r c' w' where b: "send_command example_runtime ?c2 ''ping'' JNull ?w2 = Some (r, c', w')"
    by blast
  from single_reconnect[of ?c ?w example_runtime "''ping''" JNull] a
    single_reconnect[of ?c2 ?w2 example_runtime "''ping''" JNull] b
  show ?thesis by auto
qed

text \<open>
  Claim C2. When \<^verbatim>\<open>send_command\<close> raises, whatever the cause, the connection's \<open>sock\<close>
  is None afterwards, and the first thing the next call does is a connection attempt.
\<close>

theorem drop_socket_on_error:
  assumes "send_command rt self ct p w = Some (Inl e, self', w')"
  shows "sock self' = None \<and>
         (\<forall>ct2 p2 r2 self2 w2. send_command rt self' ct2 p2 w' = Some (r2, self2, w2) \<longrightarrow>
            (\<exists>rest. io_log w2 = io_log w' @
                EConnect (next_sock w') (host self') (port self') (shd (connect_results w')) # rest))"
proof (intro conjI allI impI)
  show s: "sock self' = None" by (rule send_command_error_sock[OF assms])
  fix ct2 p2 r2 self2 w2
  assume n: "send_command rt self' ct2 p2 w' = Some (r2, self2, w2)"
  let ?c = "EConnect (next_sock w') (host self') (port self') (shd (connect_results w'))"
  show "\<exists>rest. io_log w2 = io_log w' @ ?c # rest"
  proof (cases "shd (connect_results w')")
    case (Some e2)
    from n send_command_connect_fails[OF s Some, of rt ct2 p2] Some show ?thesis by auto
  next
    case ok: None
    obtain self1 w1 where c: "connect self' w' = (True, self1, w1)"
      and l1: "io_log w1 = io_log w' @ [?c]"
      using s ok by (auto simp: connect_def Let_def)
    let ?w2 = "w1\<lparr>uuids := stl (uuids w1), clock := stl (clock w1)\<rparr>"
    from n s c obtain r1 where
      "exchange rt self1 (build_command ct2 p2 (shd (uuids w1)) (shd (clock w1))) ?w2 = Some (r1, w2)"
      by (auto simp: send_command_def Let_def split: option.splits prod.splits sum.splits)
    from exchange_log[OF this] l1 show ?thesis by auto
  qed
qed

theorem drop_socket_on_error_witness:
  "fst (the (send_command example_runtime \<lparr>host = ''localhost'', port = 9876, sock = Some 0\<rparr> ''ping'' JNull
        (example_world (sconst None) (RecvData ''{\"status\": \"error\"}'' ## sconst (RecvData [])))))
     = Inl (PyExc OtherException ''Communication error with Blender: Unknown error from Blender'')
   \<and> sock (fst (snd (the (send_command example_runtime
        \<lparr>host = ''localhost'', port = 9876, sock = Some 0\<rparr> ''ping'' JNull
        (example_world (sconst None) (RecvData ''{\"status\": \"error\"}'' ## sconst (RecvData []))))))) = None
   \<and> is_connect (io_log (snd (snd (the (send_command example_runtime
        \<lparr>host = ''localhost'', port = 9876, sock = None\<rparr> ''ping'' JNull
        (snd (snd (the (send_command example_runtime
           \<lparr>host = ''localhost'', port = 9876, sock = Some 0\<rparr> ''ping'' JNull
           (example_world (sconst None) (RecvData ''{\"status\": \"error\"}'' ## sconst (RecvData [])))))))))))
       ! 2)"
proof -
  let ?c = "\<lparr>host = ''localhost'', port = 9876, sock = Some (0::nat)\<rparr>"
  let ?w = "example_world (sconst None) (RecvData ''{\"status\": \"error\"}'' ## sconst (RecvData []))"
  have "\<exists>w'. send_command example_runtime ?c ''ping'' JNull ?w =
     Some (Inl (PyExc OtherException ''Communication error with Blender: Unknown error from Blender''),
           \<lparr>host = ''localhost'', port = 9876, sock = None\<rparr>, w') \<and> length (io_log w') = 2"
    by (simp add: send_simps receive_loop.simps recv_simps example_simps)
  then obtain w' where e: "send_command example_runtime ?c ''ping'' JNull ?w =
     Some (Inl (PyExc OtherException ''Communication error with Blender: Unknown error from Blender''),
           \<lparr>host = ''localhost'', port = 9876, sock = None\<rparr>, w')" and l: "length (io_log w') = 2"
    by blast
  have "\<exists>r2 c2 w2. send_command example_runtime \<lparr>host = ''localhost'', port = 9876, sock = None\<rparr>
          ''ping'' JNull w' = Some (r2, c2, w2)"
    using e by (auto simp: send_simps receive_loop.simps recv_simps example_simps)
  then obtain r2 c2 w2 where n: "send_command example_runtime \<lparr>host = ''localhost'', port = 9876, sock = None\<rparr>
          ''ping'' JNull w' = Some (r2, c2, w2)" by blast
  from drop_socket_on_error[OF e, THEN conjunct2, rule_format, OF n] obtain rest where
    "io_log w2 = io_log w' @ EConnect (next_sock w') ''localhost'' 9876 (shd (connect_results w')) # rest"
    by auto
  with l have "is_connect (io_log w2 ! 2)" by (simp add: nth_append)
  with drop_socket_on_error[OF e] n e show ?thesis by simp
qed

section \<open>The persistent connection\<close>






section \<open>The tools, the dispatcher and the client handler\<close>

lemmas exec_simps = execute_command_def execute_body_def then_do_def call_host_def kwargs_def
  object_present_def success_message_def failure_def py_get_def

text \<open>
  Claim C9. Each of the seven tools that take a confirmation flag, called with
  \<^verbatim>\<open>confirm=False\<close>, returns its "requires confirmation=True parameter" text and leaves
  the server's state and the world as they were: no connection is obtained, nothing is
  sent, nothing is logged.
\<close>

theorem confirmation_required:
  "delete_scene rt scene_name False st w = Some (''Scene deletion requires confirmation=True parameter'', st, w)
 \<and> clear_scene rt False st w = Some (''Scene clearing requires confirmation=True parameter'', st, w)
 \<and> delete_object rt object_name False st w = Some (''Object deletion requires confirmation=True parameter'', st, w)
 \<and> delete_material rt material_name False st w = Some (''Material deletion requires confirmation=True parameter'', st, w)
 \<and> remove_modifier rt object_name modifier_name False st w = Some (''Modifier removal requires confirmation=True parameter'', st, w)
 \<and> clear_animation rt object_name False st w = Some (''Animation clearing requires confirmation=True parameter'', st, w)
 \<and> load_scene rt file_path False st w = Some (''Scene loading requires confirmation=True parameter'', st, w)"
  by (simp add: delete_scene_def clear_scene_def delete_object_def delete_material_def
        remove_modifier_def clear_animation_def load_scene_def)

text \<open>
  Claim C7. The dictionary that \<^verbatim>\<open>send_command\<close> builds has the command name under
  \<^verbatim>\<open>type\<close> and no entry \<^verbatim>\<open>action\<close>, so the addon's \<^verbatim>\<open>execute_command\<close> answers it, whatever
  the command, with success False and the error "Unknown action: None", calling
  nothing in Blender and leaving its state unchanged.
\<close>

theorem command_key_mismatch:
  "py_get (build_command command_type params uid ts) ''type'' JNull = Inr (JStr command_type)
 \<and> py_get (build_command command_type params uid ts) ''action'' JNull = Inr JNull
 \<and> execute_command rt h (build_command command_type params uid ts) b =
      (JObj [(''success'', JBool False), (''error'', JStr ''Unknown action: None'')], b, [])"
  by (simp add: build_command_def exec_simps py_str_def)

lemma unknown_action:
  assumes "\<forall>a \<in> set recognized_actions. map_of d ''action'' \<noteq> Some (JStr a)"
  shows "execute_command rt h (JObj d) b =
           (failure (''Unknown action: '' @ py_str rt (case map_of d ''action'' of Some v \<Rightarrow> v | None \<Rightarrow> JNull)), b, [])"
  using assms
  by (auto simp: recognized_actions_def exec_simps split: option.splits)

lemma known_action:
  assumes "map_of d ''action'' = Some (JStr a)" and "a \<in> set recognized_actions"
    and "execute_command rt h (JObj d) b = (res, b', calls)"
  shows "(\<exists>m. res = failure m) \<or>
         (is_success res \<and> calls \<noteq> [] \<and> api_of (last calls) = a \<and> (\<exists>b0 v. h (last calls) b0 = (Inr v, b')))"
  using assms
  apply (simp add: recognized_actions_def)
  apply (elim disjE)
  apply (auto simp: exec_simps is_success_def split: option.splits sum.splits prod.splits if_splits json.splits)
  done

lemma cooperative_success:
  assumes act: "map_of d ''action'' = Some (JStr a)" and rec: "a \<in> set recognized_actions"
    and par: "(case map_of d ''params'' of None \<Rightarrow> JObj [] | Some p \<Rightarrow> p) = JObj pd"
    and ok: "\<forall>c b0. \<exists>v b1. h c b0 = (Inr v, b1)"
    and present: "a = ''delete_object'' \<or> a = ''move_object'' \<longrightarrow>
        (\<exists>n v b1. map_of pd ''name'' = Some n \<and> truthy n \<and> h (ObjectsContains n) b = (Inr v, b1) \<and> truthy v)"
  shows "is_success (fst (execute_command rt h (JObj d) b))"
proof -
  have r: "\<And>c b0. \<exists>v b1. h c b0 = (Inr v, b1)" using ok by blast
  have p: "py_get (JObj d) ''params'' (JObj []) = Inr (JObj pd)"
    using par by (simp add: py_get_def)
  from rec have "a = ''add_cube'' \<or> a = ''add_sphere'' \<or> a = ''add_cylinder''
    \<or> a = ''delete_object'' \<or> a = ''move_object'' \<or> a = ''render'' \<or> a = ''save_file'' \<or> a = ''eval''"
    by (simp add: recognized_actions_def)
  then show ?thesis
  proof (elim disjE)
    assume 1: "a = ''add_cube''"
    with act par r[of "CubeAdd (JObj pd)" b] show ?thesis
      by (auto simp: exec_simps is_success_def split: option.splits)
  next
    assume 2: "a = ''add_sphere''"
    with act par r[of "SphereAdd (JObj pd)" b] show ?thesis
      by (auto simp: exec_simps is_success_def split: option.splits)
  next
    assume 3: "a = ''add_cylinder''"
    with act par r[of "CylinderAdd (JObj pd)" b] show ?thesis
      by (auto simp: exec_simps is_success_def split: option.splits)
  next
    assume 4: "a = ''delete_object''"
    with present obtain n v b1 where n: "map_of pd ''name'' = Some n" "truthy n"
      "h (ObjectsContains n) b = (Inr v, b1)" "truthy v" by auto
    with 4 act par r[of "ObjectsRemove n" b1] show ?thesis
      by (auto simp: exec_simps is_success_def split: option.splits)
  next
    assume 5: "a = ''move_object''"
    with present obtain n v b1 where n: "map_of pd ''name'' = Some n" "truthy n"
      "h (ObjectsContains n) b = (Inr v, b1)" "truthy v" by auto
    with 5 act par
      r[of "SetLocation n (case map_of pd ''location'' of Some l \<Rightarrow> l | None \<Rightarrow> JArr [JInt 0, JInt 0, JInt 0])" b1]
    show ?thesis
      by (auto simp: exec_simps is_success_def split: option.splits)
  next
    assume 6: "a = ''render''"
    with act par r[of Render b] show ?thesis
      by (auto simp: exec_simps is_success_def split: option.splits)
  next
    assume 7: "a = ''save_file''"
    with act par
      r[of "SaveAsMainfile (case map_of pd ''filepath'' of Some l \<Rightarrow> l | None \<Rightarrow> JNull)" b]
    show ?thesis
      by (auto simp: exec_simps is_success_def split: option.splits)
  next
    assume 8: "a = ''eval''"
    with act par
      r[of "Eval (case map_of pd ''code'' of Some l \<Rightarrow> l | None \<Rightarrow> JNull)" b]
    show ?thesis
      by (auto simp: exec_simps is_success_def split: option.splits)
  qed
qed

lemma example_host_returns: "\<exists>v b1. example_host c b0 = (Inr v, b1)"
  by (cases c) simp_all

text \<open>
  Claim C5, as amended. For a command dictionary whose action is one of the eight
  names, \<^verbatim>\<open>execute_command\<close> returns either a failure dictionary or a success dictionary,
  and a success dictionary only after the call into Blender that belongs to the action
  has been made last and has returned normally. When the params are a dictionary, no
  call into Blender raises and, for \<^verbatim>\<open>delete_object\<close> and \<^verbatim>\<open>move_object\<close>, the named object
  is present, the result reports success. For a command dictionary with any other
  action value the result is success False with "Unknown action: " and the value,
  nothing is called and Blender's state is unchanged. The function always returns a
  dictionary.
\<close>

theorem execute_command_dispatch:
  "(\<forall>a res b' calls. map_of d ''action'' = Some (JStr a) \<and> a \<in> set recognized_actions
        \<and> execute_command rt h (JObj d) b = (res, b', calls) \<longrightarrow>
      (\<exists>m. res = failure m) \<or>
      (is_success res \<and> calls \<noteq> [] \<and> api_of (last calls) = a \<and> (\<exists>b0 v. h (last calls) b0 = (Inr v, b'))))
 \<and> (\<forall>a pd. map_of d ''action'' = Some (JStr a) \<and> a \<in> set recognized_actions
        \<and> (case map_of d ''params'' of None \<Rightarrow> JObj [] | Some p \<Rightarrow> p) = JObj pd
        \<and> (\<forall>c b0. \<exists>v b1. h c b0 = (Inr v, b1))
        \<and> (a = ''delete_object'' \<or> a = ''move_object'' \<longrightarrow>
             (\<exists>n v b1. map_of pd ''name'' = Some n \<and> truthy n
                \<and> h (ObjectsContains n) b = (Inr v, b1) \<and> truthy v)) \<longrightarrow>
      is_success (fst (execute_command rt h (JObj d) b)))
 \<and> ((\<forall>a \<in> set recognized_actions. map_of d ''action'' \<noteq> Some (JStr a)) \<longrightarrow>
      execute_command rt h (JObj d) b =
        (JObj [(''success'', JBool False),
               (''error'', JStr (''Unknown action: ''
                  @ py_str rt (case map_of d ''action'' of Some v \<Rightarrow> v | None \<Rightarrow> JNull)))], b, []))"
proof -
  have A: "\<forall>a res b' calls. map_of d ''action'' = Some (JStr a) \<and> a \<in> set recognized_actions
        \<and> execute_command rt h (JObj d) b = (res, b', calls) \<longrightarrow>
      (\<exists>m. res = failure m) \<or>
      (is_success res \<and> calls \<noteq> [] \<and> api_of (last calls) = a \<and> (\<exists>b0 v. h (last calls) b0 = (Inr v, b')))"
    using known_action[of d _ rt h b] by blast
  have B: "\<forall>a pd. map_of d ''action'' = Some (JStr a) \<and> a \<in> set recognized_actions
        \<and> (case map_of d ''params'' of None \<Rightarrow> JObj [] | Some p \<Rightarrow> p) = JObj pd
        \<and> (\<forall>c b0. \<exists>v b1. h c b0 = (Inr v, b1))
        \<and> (a = ''delete_object'' \<or> a = ''move_object'' \<longrightarrow>
             (\<exists>n v b1. map_of pd ''name'' = Some n \<and> truthy n
                \<and> h (ObjectsContains n) b = (Inr v, b1) \<and> truthy v)) \<longrightarrow>
      is_success (fst (execute_command rt h (JObj d) b))"
    using cooperative_success[of d _ _ h b rt] by blast
  have C: "(\<forall>a \<in> set recognized_actions. map_of d ''action'' \<noteq> Some (JStr a)) \<longrightarrow>
      execute_command rt h (JObj d) b =
        (JObj [(''success'', JBool False),
               (''error'', JStr (''Unknown action: ''
                  @ py_str rt (case map_of d ''action'' of Some v \<Rightarrow> v | None \<Rightarrow> JNull)))], b, [])"
    using unknown_action[of d rt h b] by (simp add: failure_def)
  show ?thesis by (rule conjI[OF A conjI[OF B C]])
qed

theorem execute_command_dispatch_witness:
  "is_success (fst (execute_command example_runtime example_host (JObj [(''action'', JStr ''add_cube'')]) []))
   \<and> execute_command example_runtime example_host (JObj [(''action'', JStr ''fly'')]) [] =
       (JObj [(''success'', JBool False), (''error'', JStr ''Unknown action: fly'')], [], [])"
proof -
  let ?d1 = "[(''action'', JStr ''add_cube'')]"
  let ?d2 = "[(''action'', JStr ''fly'')]"
  have h1: "map_of ?d1 ''action'' = Some (JStr ''add_cube'') \<and> ''add_cube'' \<in> set recognized_actions
        \<and> (case map_of ?d1 ''params'' of None \<Rightarrow> JObj [] | Some p \<Rightarrow> p) = JObj []
        \<and> (\<forall>c b0. \<exists>v b1. example_host c b0 = (Inr v, b1))
        \<and> (''add_cube'' = ''delete_object'' \<or> ''add_cube'' = ''move_object'' \<longrightarrow>
             (\<exists>n v b1. map_of [] ''name'' = Some n \<and> truthy n
                \<and> example_host (ObjectsContains n) [] = (Inr v, b1) \<and> truthy v))"
    using example_host_returns by (simp add: recognized_actions_def)
  have h2: "\<forall>a \<in> set recognized_actions. map_of ?d2 ''action'' \<noteq> Some (JStr a)"
    by (simp add: recognized_actions_def)
  from execute_command_dispatch[of ?d1 example_runtime example_host "[]", THEN conjunct2, THEN conjunct1,
         rule_format, OF h1]
       execute_command_dispatch[of ?d2 example_runtime example_host "[]", THEN conjunct2, THEN conjunct2,
         THEN mp, OF h2]
  show ?thesis by (simp add: py_str_def)
qed

text \<open>
  The claim as first stated fails: \<^verbatim>\<open>delete_object\<close> for an object that is not there
  returns success False and never calls \<^verbatim>\<open>remove\<close>.
\<close>

theorem execute_command_no_success_counterexample:
  "execute_command example_runtime example_host
     (JObj [(''action'', JStr ''delete_object''), (''params'', JObj [(''name'', JStr ''Cube'')])]) [] =
   (JObj [(''success'', JBool False), (''error'', JStr ''Object not found'')], [], [ObjectsContains (JStr ''Cube'')])"
  by (simp add: exec_simps)

lemmas client_simps = handle_client_def client_step_def handle_message_def answer_body_def
  client_sendall_def

text \<open>
  Claim C6 at the message \<^verbatim>\<open>[1]\<close>. The bytes decode as JSON, but the value is a list:
  the statement that prints \<^verbatim>\<open>command.get('action')\<close> raises, the outer handler ends the
  loop, and the socket is closed with nothing sent, although \<^verbatim>\<open>execute_command\<close> itself
  would have returned a failure dictionary for the same value.
\<close>

theorem handle_client_unanswered:
  "map_option sent (handle_client example_runtime example_host
      (example_client (RecvData ''[1]'' ## sconst (RecvData ''{}'')))) = Some []
   \<and> map_option closed (handle_client example_runtime example_host
      (example_client (RecvData ''[1]'' ## sconst (RecvData ''{}'')))) = Some True
   \<and> fst (execute_command example_runtime example_host (JArr [JInt 1]) []) =
       JObj [(''success'', JBool False),
             (''error'', JStr (quoted ''list'' @ '' object has no attribute '' @ quoted ''get''))]"
  by (simp add: client_simps client_loop.simps exec_simps example_simps)

end
